theory Spec2Isabelle
  imports Complex_Main "HOL-Library.Multiset"
begin

section \<open>Strings\<close>

text \<open>
  A JavaScript string is a list of 16-bit code units. The model has the code units of
  Latin-1 (those below 256, a \<^typ>\<open>char\<close> each) and six more: the letters U+039C, U+03BC
  and U+0178, which \<open>toUpperCase\<close> and \<open>toLowerCase\<close> reach from Latin-1, and the bullet
  U+2022 and the dashes U+2013 and U+2014, which \<open>cleanText\<close> strips. The functions of the
  source keep strings of these code units within them; every other code unit is outside
  the model. \<open>js\<close> reads a string of Latin-1 characters as such a string.
\<close>

datatype jchar =
    Latin char
  | Capital_Mu
  | Small_Mu
  | Capital_Y_Diaeresis
  | Bullet
  | En_Dash
  | Em_Dash

type_synonym jstring = "jchar list"

abbreviation js :: "string \<Rightarrow> jstring" where
  "js s \<equiv> map Latin s"

fun code :: "jchar \<Rightarrow> nat" where
  "code (Latin c) = of_char c"
| "code Capital_Mu = 924"
| "code Small_Mu = 956"
| "code Capital_Y_Diaeresis = 376"
| "code Bullet = 8226"
| "code En_Dash = 8211"
| "code Em_Dash = 8212"

text \<open>The class \<open>\s\<close>, which is also what \<open>String.prototype.trim\<close> removes.\<close>

definition is_space :: "jchar \<Rightarrow> bool" where
  "is_space c = (code c = 9 \<or> code c = 10 \<or> code c = 11 \<or> code c = 12 \<or> code c = 13
     \<or> code c = 32 \<or> code c = 160)"

text \<open>The class \<open>\d\<close>.\<close>

definition is_digit :: "jchar \<Rightarrow> bool" where
  "is_digit c = (48 \<le> code c \<and> code c \<le> 57)"

text \<open>The class \<open>\w\<close>: letters, digits and the underscore.\<close>

definition is_word :: "jchar \<Rightarrow> bool" where
  "is_word c = ((65 \<le> code c \<and> code c \<le> 90) \<or> (97 \<le> code c \<and> code c \<le> 122)
     \<or> is_digit c \<or> code c = 95)"

text \<open>The class \<open>[\u0000-\u001F\u007F-\u009F]\<close>.\<close>

definition is_control :: "jchar \<Rightarrow> bool" where
  "is_control c = (code c \<le> 31 \<or> (127 \<le> code c \<and> code c \<le> 159))"

text \<open>
  The letters with two cases: \<open>A\<close> to \<open>Z\<close>, the capitals of Latin-1 from U+00C0 to U+00DE
  (U+00D7 is the multiplication sign), U+039C and U+0178, and under each its small
  letter. \<open>toLowerCase\<close> maps a capital to its small letter and leaves every other code
  unit as it is.
\<close>

definition upper_letters :: jstring where
  "upper_letters =
     js ''ABCDEFGHIJKLMNOPQRSTUVWXYZ''
     @ js [CHR 0xC0, CHR 0xC1, CHR 0xC2, CHR 0xC3, CHR 0xC4, CHR 0xC5, CHR 0xC6, CHR 0xC7,
           CHR 0xC8, CHR 0xC9, CHR 0xCA, CHR 0xCB, CHR 0xCC, CHR 0xCD, CHR 0xCE, CHR 0xCF,
           CHR 0xD0, CHR 0xD1, CHR 0xD2, CHR 0xD3, CHR 0xD4, CHR 0xD5, CHR 0xD6, CHR 0xD8,
           CHR 0xD9, CHR 0xDA, CHR 0xDB, CHR 0xDC, CHR 0xDD, CHR 0xDE]
     @ [Capital_Mu, Capital_Y_Diaeresis]"

definition lower_letters :: jstring where
  "lower_letters =
     js ''abcdefghijklmnopqrstuvwxyz''
     @ js [CHR 0xE0, CHR 0xE1, CHR 0xE2, CHR 0xE3, CHR 0xE4, CHR 0xE5, CHR 0xE6, CHR 0xE7,
           CHR 0xE8, CHR 0xE9, CHR 0xEA, CHR 0xEB, CHR 0xEC, CHR 0xED, CHR 0xEE, CHR 0xEF,
           CHR 0xF0, CHR 0xF1, CHR 0xF2, CHR 0xF3, CHR 0xF4, CHR 0xF5, CHR 0xF6, CHR 0xF8,
           CHR 0xF9, CHR 0xFA, CHR 0xFB, CHR 0xFC, CHR 0xFD, CHR 0xFE]
     @ [Small_Mu, Latin (CHR 0xFF)]"

definition lower_char :: "jchar \<Rightarrow> jchar" where
  "lower_char c = (case map_of (zip upper_letters lower_letters) c of Some d \<Rightarrow> d | None \<Rightarrow> c)"

definition toLowerCase :: "jstring \<Rightarrow> jstring" where
  "toLowerCase s = map lower_char s"

text \<open>
  \<open>toUpperCase\<close> maps a small letter to its capital; the sharp s U+00DF becomes \<open>SS\<close>, and
  the micro sign U+00B5 becomes U+039C, the capital of U+03BC as well.
\<close>

definition upper_units :: "jchar \<Rightarrow> jstring" where
  "upper_units c =
     (if c = Latin (CHR 0xDF) then js ''SS''
      else if c = Latin (CHR 0xB5) then [Capital_Mu]
      else (case map_of (zip lower_letters upper_letters) c of Some d \<Rightarrow> [d] | None \<Rightarrow> [c]))"

definition toUpperCase :: "jstring \<Rightarrow> jstring" where
  "toUpperCase s = concat (map upper_units s)"

definition trim :: "jstring \<Rightarrow> jstring" where
  "trim s = rev (dropWhile is_space (rev (dropWhile is_space s)))"

fun starts_with :: "jstring \<Rightarrow> jstring \<Rightarrow> bool" where
  "starts_with s [] = True"
| "starts_with [] (p # ps) = False"
| "starts_with (c # cs) (p # ps) = (c = p \<and> starts_with cs ps)"

text \<open>\<open>s.includes(sub)\<close>: \<open>sub\<close> occurs in \<open>s\<close> as a contiguous substring.\<close>

fun str_includes :: "jstring \<Rightarrow> jstring \<Rightarrow> bool" where
  "str_includes [] sub = (sub = [])"
| "str_includes (c # cs) sub = (starts_with (c # cs) sub \<or> str_includes cs sub)"

text \<open>\<open>/^\d+$/.test(s)\<close>: a non-empty string of digits.\<close>

definition is_numeric :: "jstring \<Rightarrow> bool" where
  "is_numeric s = (s \<noteq> [] \<and> list_all is_digit s)"

section \<open>Products\<close>

text \<open>
  The interface \<open>HempProduct\<close>. An optional field is an \<^typ>\<open>'a option\<close>; the values of
  \<open>technical_specs\<close> are of any type, here the type parameter. The field \<open>keywords\<close>
  is \<open>keywords_field\<close>, its name being reserved.
\<close>

record 's HempProduct =
  product_name :: jstring
  plant_part :: jstring
  industry :: jstring
  description :: jstring
  source_url :: jstring
  benefits :: "jstring list option"
  technical_specs :: "'s option"
  sustainability_aspects :: "jstring list option"
  keywords_field :: "jstring list option"

section \<open>The validator\<close>

definition validPlantParts :: "jstring list" where
  "validPlantParts =
     map js
      [''seed'', ''seeds'', ''fiber'', ''fibre'', ''flower'', ''leaves'', ''leaf'',
      ''stem'', ''stalk'', ''hurds'', ''hurd'', ''roots'', ''root'', ''oil'',
      ''whole plant'', ''biomass'', ''sprouts'', ''extract'']"

definition isValidPlantPart :: "jstring \<Rightarrow> bool" where
  "isValidPlantPart plantPartLower =
     list_ex (\<lambda>part. str_includes plantPartLower part \<or> str_includes part plantPartLower)
       validPlantParts"

text \<open>
  \<open>DataProcessor.isValidProduct\<close>, rule by rule in the order of the source; each
  \<open>return false\<close> is a branch to \<^term>\<open>False\<close>.
\<close>

definition isValidProduct :: "'s HempProduct \<Rightarrow> bool" where
  "isValidProduct product =
     (if is_numeric (product_name product) then False
      else if is_numeric (plant_part product) then False
      else if product_name product = [] \<or> length (product_name product) < 3 then False
      else if (description product = [] \<or> trim (description product) = [])
              \<and> length (product_name product) < 5 then False
      else if \<not> str_includes (toLowerCase (product_name product)) (js ''hemp'')
              \<and> \<not> str_includes (toLowerCase (product_name product)) (js ''cannabis'')
              \<and> \<not> str_includes (toLowerCase (product_name product)) (js ''cbd'')
              \<and> \<not> str_includes (toLowerCase (description product)) (js ''hemp'') then False
      else if industry product = [] \<or> industry product = js ''Other''
              \<or> is_numeric (industry product) then False
      else if \<not> isValidPlantPart (toLowerCase (plant_part product)) then False
      else if source_url product \<noteq> [] \<and> str_includes (source_url product) (js ''gist.github'')
              \<and> (description product = [] \<or> length (description product) < 20) then False
      else True)"

section \<open>Cleaning and normalisation\<close>

text \<open>\<open>replace(/\s+/g, ' ')\<close>: every maximal run of white space becomes one space. The
  flag says whether the character before was white space.\<close>

fun collapse_spaces :: "bool \<Rightarrow> jstring \<Rightarrow> jstring" where
  "collapse_spaces in_run [] = []"
| "collapse_spaces in_run (c # cs) =
     (if is_space c then
        (if in_run then collapse_spaces True cs else Latin (CHR '' '') # collapse_spaces True cs)
      else c # collapse_spaces False cs)"

text \<open>The class \<open>[\s\-\u2022\u2013\u2014]\<close> of the leading decorations that \<open>cleanText\<close>
  strips.\<close>

definition is_decoration :: "jchar \<Rightarrow> bool" where
  "is_decoration c =
     (is_space c \<or> c = Latin (CHR ''-'') \<or> c = Bullet \<or> c = En_Dash \<or> c = Em_Dash)"

definition cleanText :: "jstring \<Rightarrow> jstring" where
  "cleanText text =
     trim (dropWhile is_decoration
       (filter (\<lambda>c. \<not> is_control c) (collapse_spaces False (trim text))))"

text \<open>\<open>s.split(d)\<close> for a one-character separator, and \<open>join\<close>.\<close>

fun split_char :: "jchar \<Rightarrow> jstring \<Rightarrow> jstring \<Rightarrow> jstring list" where
  "split_char d cur [] = [cur]"
| "split_char d cur (c # cs) =
     (if c = d then cur # split_char d [] cs else split_char d (cur @ [c]) cs)"

fun join :: "jstring \<Rightarrow> jstring list \<Rightarrow> jstring" where
  "join sep [] = []"
| "join sep [w] = w"
| "join sep (w # v # ws) = w @ sep @ join sep (v # ws)"

definition capitalize :: "jstring \<Rightarrow> jstring" where
  "capitalize word = toUpperCase (take 1 word) @ drop 1 word"

definition normalizeText :: "jstring \<Rightarrow> jstring" where
  "normalizeText text =
     join (js '' '') (map capitalize (split_char (Latin (CHR '' '')) [] (toLowerCase (cleanText text))))"

section \<open>Keywords\<close>

text \<open>\<open>s.split(/C+/)\<close> for a character class \<open>C\<close>: the pieces between the maximal runs
  of separator characters. The flag says whether the character before was a separator.\<close>

fun split_runs :: "(jchar \<Rightarrow> bool) \<Rightarrow> bool \<Rightarrow> jstring \<Rightarrow> jstring \<Rightarrow> jstring list" where
  "split_runs sep in_run cur [] = [cur]"
| "split_runs sep in_run cur (c # cs) =
     (if sep c then
        (if in_run then split_runs sep True cur cs else cur # split_runs sep True [] cs)
      else split_runs sep False (cur @ [c]) cs)"

text \<open>Keeping the first occurrence of every element, as \<open>[...new Set(xs)]\<close> and the
  \<open>indexOf\<close> filter do.\<close>

fun unique_first :: "'a list \<Rightarrow> 'a list \<Rightarrow> 'a list" where
  "unique_first seen [] = []"
| "unique_first seen (x # xs) =
     (if x \<in> set seen then unique_first seen xs else x # unique_first (x # seen) xs)"

definition stopWords :: "jstring list" where
  "stopWords =
     map js
      [''the'', ''a'', ''an'', ''and'', ''or'', ''but'', ''in'', ''on'', ''at'', ''to'', ''for'',
      ''of'', ''with'', ''by'', ''from'', ''as'', ''is'', ''was'', ''are'', ''were'', ''been'',
      ''be'', ''have'', ''has'', ''had'', ''do'', ''does'', ''did'', ''will'', ''would'',
      ''could'', ''should'', ''may'', ''might'', ''must'', ''shall'', ''can'', ''cannot'']"

definition extractKeywords :: "'s HempProduct \<Rightarrow> jstring list" where
  "extractKeywords product =
     (let text = product_name product @ js '' '' @ description product @ js '' ''
                 @ plant_part product @ js '' '' @ industry product;
          words = split_runs (\<lambda>c. \<not> is_word c) False [] (toLowerCase text);
          keywords = unique_first []
                       (filter (\<lambda>word. length word > 3 \<and> word \<notin> set stopWords) words)
      in take 20 keywords)"

definition cleanProduct :: "'s HempProduct \<Rightarrow> 's HempProduct" where
  "cleanProduct product =
     \<lparr> product_name = cleanText (product_name product),
       plant_part = normalizeText (plant_part product),
       industry = normalizeText (industry product),
       description = cleanText (description product),
       source_url = source_url product,
       benefits = map_option (map cleanText) (benefits product),
       technical_specs = technical_specs product,
       sustainability_aspects = map_option (map cleanText) (sustainability_aspects product),
       keywords_field = Some (extractKeywords product) \<rparr>"

section \<open>The content hash\<close>

text \<open>
  \<open>generateHash\<close> feeds the key to SHA-256 of the \<open>crypto\<close> library and takes the digest in
  hexadecimal. The digest is a library function; it is the parameter \<open>digest\<close>.
\<close>

definition hashKey :: "'s HempProduct \<Rightarrow> jstring" where
  "hashKey product =
     filter (\<lambda>c. \<not> is_space c)
       (toLowerCase (product_name product @ js ''|'' @ plant_part product @ js ''|'' @ industry product))"

definition generateHash :: "(jstring \<Rightarrow> jstring) \<Rightarrow> 's HempProduct \<Rightarrow> jstring" where
  "generateHash digest product = digest (hashKey product)"

section \<open>Regular expressions\<close>

text \<open>
  The patterns of \<open>extractBenefits\<close> are regular expressions with the flags \<open>g\<close> and \<open>i\<close>.
  They are built from literals, character classes,
  optional parts, greedy repetitions of a class, alternatives, sequences and capture
  groups. \<open>rx_match r s\<close> lists the ways \<open>r\<close> matches a prefix of \<open>s\<close> in the order a
  backtracking matcher tries them: the text consumed, the capture groups (\<open>None\<close> for a
  group that took no part) and the rest of \<open>s\<close>. The literals of the patterns consist of
  ASCII characters and the copyright sign; under the flag \<open>i\<close> such a literal matches the
  text whose lower-cased code units are those of the lower-cased literal.
\<close>

datatype rx =
    Lit jstring
  | Cls "jchar \<Rightarrow> bool"
  | Opt rx
  | Star "jchar \<Rightarrow> bool"
  | Plus "jchar \<Rightarrow> bool"
  | Alt rx rx
  | Seq rx rx
  | Grp rx

fun ngroups :: "rx \<Rightarrow> nat" where
  "ngroups (Lit l) = 0"
| "ngroups (Cls P) = 0"
| "ngroups (Opt r) = ngroups r"
| "ngroups (Star P) = 0"
| "ngroups (Plus P) = 0"
| "ngroups (Alt r1 r2) = ngroups r1 + ngroups r2"
| "ngroups (Seq r1 r2) = ngroups r1 + ngroups r2"
| "ngroups (Grp r) = Suc (ngroups r)"

type_synonym rx_result = "jstring \<times> jstring option list \<times> jstring"

fun rx_match :: "rx \<Rightarrow> jstring \<Rightarrow> rx_result list" where
  "rx_match (Lit l) s =
     (if starts_with (toLowerCase (take (length l) s)) (toLowerCase l)
      then [(take (length l) s, [], drop (length l) s)] else [])"
| "rx_match (Cls P) s =
     (case s of [] \<Rightarrow> [] | c # cs \<Rightarrow> if P c then [([c], [], cs)] else [])"
| "rx_match (Opt r) s = rx_match r s @ [([], replicate (ngroups r) None, s)]"
| "rx_match (Star P) s =
     map (\<lambda>k. (take k s, [], drop k s)) (rev [0 ..< Suc (length (takeWhile P s))])"
| "rx_match (Plus P) s =
     map (\<lambda>k. (take k s, [], drop k s)) (rev [1 ..< Suc (length (takeWhile P s))])"
| "rx_match (Alt r1 r2) s =
     map (\<lambda>(c, g, rest). (c, g @ replicate (ngroups r2) None, rest)) (rx_match r1 s)
     @ map (\<lambda>(c, g, rest). (c, replicate (ngroups r1) None @ g, rest)) (rx_match r2 s)"
| "rx_match (Seq r1 r2) s =
     concat (map (\<lambda>(c1, g1, rest1).
                map (\<lambda>(c2, g2, rest2). (c1 @ c2, g1 @ g2, rest2)) (rx_match r2 rest1))
             (rx_match r1 s))"
| "rx_match (Grp r) s = map (\<lambda>(c, g, rest). (c, Some c # g, rest)) (rx_match r s)"

text \<open>
  \<open>text.matchAll(r)\<close>: the capture groups of the successive matches, each the first match
  at the leftmost position at or after the end of the match before. \<open>skip\<close> counts the
  characters that the match before has consumed; after an empty match the search moves
  on by one character.
\<close>

fun matchAll :: "rx \<Rightarrow> nat \<Rightarrow> jstring \<Rightarrow> jstring option list list" where
  "matchAll r skip [] =
     (if skip = 0 then (case rx_match r [] of [] \<Rightarrow> [] | (c, g, rest) # _ \<Rightarrow> [g]) else [])"
| "matchAll r skip (c # cs) =
     (if skip > 0 then matchAll r (skip - 1) cs
      else (case rx_match r (c # cs) of
              [] \<Rightarrow> matchAll r 0 cs
            | (m, g, rest) # _ \<Rightarrow> g # matchAll r (length m - 1) cs))"

section \<open>Enrichment\<close>

definition not_stop :: "jchar \<Rightarrow> bool" where
  "not_stop c = (c \<noteq> Latin (CHR ''.'') \<and> c \<noteq> Latin (CHR '';''))"

text \<open>The three patterns of \<open>extractBenefits\<close>, in the order of the source.\<close>

definition benefitPatterns :: "rx list" where
  "benefitPatterns =
     [ Seq (Alt (Seq (Lit (js ''benefit'')) (Opt (Lit (js ''s'')))) (Seq (Lit (js ''advantage'')) (Opt (Lit (js ''s'')))))
         (Seq (Star is_space) (Seq (Opt (Lit (js '':''))) (Seq (Star is_space) (Grp (Plus not_stop))))),
       Seq (Alt (Seq (Lit (js ''help'')) (Opt (Lit (js ''s''))))
              (Alt (Seq (Lit (js ''provide'')) (Opt (Lit (js ''s'')))) (Seq (Lit (js ''offer'')) (Opt (Lit (js ''s''))))))
         (Seq (Plus is_space) (Grp (Plus not_stop))),
       Seq (Alt (Seq (Lit (js ''reduce'')) (Opt (Lit (js ''s''))))
              (Alt (Seq (Lit (js ''improve'')) (Opt (Lit (js ''s'')))) (Seq (Lit (js ''increase'')) (Opt (Lit (js ''s''))))))
         (Seq (Plus is_space) (Grp (Plus not_stop))) ]"

text \<open>The first capture group of a match, when it is there and not empty.\<close>

definition group1 :: "jstring option list \<Rightarrow> jstring option" where
  "group1 g = (case g of Some m # _ \<Rightarrow> (if m = [] then None else Some m) | _ \<Rightarrow> None)"

definition extractBenefits :: "jstring \<Rightarrow> jstring list" where
  "extractBenefits text =
     unique_first []
       (concat (map (\<lambda>pattern.
          concat (map (\<lambda>g. case group1 g of None \<Rightarrow> [] | Some m \<Rightarrow> [cleanText m])
                    (matchAll pattern 0 text)))
        benefitPatterns))"

definition sustainKeywords :: "jstring list" where
  "sustainKeywords =
     map js
      [''sustainable'', ''renewable'', ''biodegradable'', ''eco-friendly'',
      ''carbon negative'', ''recyclable'', ''compostable'', ''organic'',
      ''low impact'', ''green'', ''environmental'']"

definition is_sentence_end :: "jchar \<Rightarrow> bool" where
  "is_sentence_end c = (c = Latin (CHR ''.'') \<or> c = Latin (CHR ''!'') \<or> c = Latin (CHR ''?''))"

definition extractSustainability :: "jstring \<Rightarrow> jstring list" where
  "extractSustainability text =
     (let lower = toLowerCase text;
          sentences = split_runs is_sentence_end False [] text
      in unique_first []
           (concat (map (\<lambda>keyword.
              if str_includes lower keyword
              then (case find (\<lambda>sentence. str_includes (toLowerCase sentence) keyword) sentences of
                      None \<Rightarrow> [] | Some sentence \<Rightarrow> [cleanText sentence])
              else [])
            sustainKeywords)))"

text \<open>An optional list that is absent or empty.\<close>

definition absent_or_empty :: "'a list option \<Rightarrow> bool" where
  "absent_or_empty xs = (case xs of None \<Rightarrow> True | Some ys \<Rightarrow> ys = [])"

definition enrichProduct :: "'s HempProduct \<Rightarrow> 's HempProduct" where
  "enrichProduct product =
     product
       \<lparr> benefits :=
           (if absent_or_empty (benefits product)
            then Some (extractBenefits (description product)) else benefits product),
         sustainability_aspects :=
           (if absent_or_empty (sustainability_aspects product)
            then Some (extractSustainability (description product))
            else sustainability_aspects product),
         keywords_field := Some (extractKeywords product) \<rparr>"

section \<open>Validation, deduplication and enrichment of a list of products\<close>

text \<open>
  The state of the loop of \<open>DataProcessor.process\<close>: the local variables \<open>unique\<close>,
  \<open>duplicates\<close> and \<open>invalid\<close>, and the field \<open>seenHashes\<close> of the processor.
\<close>

record 's ProcessState =
  unique :: "'s HempProduct list"
  duplicates :: nat
  invalid :: nat
  seenHashes :: "jstring set"

definition process_step ::
  "(jstring \<Rightarrow> jstring) \<Rightarrow> 's ProcessState \<Rightarrow> 's HempProduct \<Rightarrow> 's ProcessState" where
  "process_step digest st product =
     (if \<not> isValidProduct product then st \<lparr> invalid := invalid st + 1 \<rparr>
      else
        (let cleaned = cleanProduct product;
             hash = generateHash digest cleaned
         in if hash \<notin> seenHashes st
            then st \<lparr> seenHashes := insert hash (seenHashes st),
                      unique := unique st @ [enrichProduct cleaned] \<rparr>
            else st \<lparr> duplicates := duplicates st + 1 \<rparr>))"

text \<open>
  \<open>process\<close> on a processor whose field \<open>seenHashes\<close> is \<open>seen\<close>: the loop from the
  initial values of the local variables. The result is the final state; the \<open>ProcessResult\<close>
  that the source returns is its \<open>unique\<close> and \<open>duplicates\<close>, and its \<open>seenHashes\<close> is the
  field of the processor afterwards.
\<close>

definition process ::
  "(jstring \<Rightarrow> jstring) \<Rightarrow> jstring set \<Rightarrow> 's HempProduct list \<Rightarrow> 's ProcessState" where
  "process digest seen products =
     foldl (process_step digest)
       \<lparr> unique = [], duplicates = 0, invalid = 0, seenHashes = seen \<rparr> products"

text \<open>
  The lifetime of one \<open>DataProcessor\<close>: successive calls of \<open>process\<close>, each starting from
  the \<open>seenHashes\<close> the call before has left.
\<close>

fun process_calls ::
  "(jstring \<Rightarrow> jstring) \<Rightarrow> jstring set \<Rightarrow> 's HempProduct list list \<Rightarrow> 's ProcessState list" where
  "process_calls digest seen [] = []"
| "process_calls digest seen (products # rest) =
     (let st = process digest seen products
      in st # process_calls digest (seenHashes st) rest)"

section \<open>The scraper\<close>

text \<open>
  \<open>parseCSVLine\<close> of \<open>Scraper.scrapeCSV\<close>. The loop over the characters of the line
  carries \<open>result\<close>, \<open>current\<close> and \<open>inQuotes\<close>; at a quote, \<open>nextChar\<close> is the head of what
  is left of the line, and \<open>i++\<close> skips it.
\<close>

definition quote :: jchar where
  "quote = Latin (CHR 0x22)"

fun parseLoop :: "jstring list \<Rightarrow> jstring \<Rightarrow> bool \<Rightarrow> jstring \<Rightarrow> jstring list" where
  "parseLoop result current inQuotes [] = result @ [trim current]"
| "parseLoop result current inQuotes (c # cs) =
     (if c = quote then
        (case cs of
           [] \<Rightarrow> parseLoop result current (\<not> inQuotes) cs
         | nextChar # cs' \<Rightarrow>
             if inQuotes \<and> nextChar = quote
             then parseLoop result (current @ [quote]) inQuotes cs'
             else parseLoop result current (\<not> inQuotes) cs)
      else if c = Latin (CHR '','') \<and> \<not> inQuotes then parseLoop (result @ [trim current]) [] inQuotes cs
      else parseLoop result (current @ [c]) inQuotes cs)"

definition parseCSVLine :: "jstring \<Rightarrow> jstring list" where
  "parseCSVLine line = parseLoop [] [] False line"

text \<open>The field heuristics \<open>extractPlantPart\<close> and \<open>extractIndustry\<close>: the first rule that
  matches wins.\<close>

definition extractPlantPart :: "jstring \<Rightarrow> jstring" where
  "extractPlantPart text =
     (let lower = toLowerCase text in
      if str_includes lower (js ''seed'') then js ''seed''
      else if str_includes lower (js ''fiber'') \<or> str_includes lower (js ''fibre'') then js ''fiber''
      else if str_includes lower (js ''flower'') \<or> str_includes lower (js ''bud'') then js ''flower''
      else if str_includes lower (js ''leaf'') \<or> str_includes lower (js ''leaves'') then js ''leaf''
      else if str_includes lower (js ''root'') then js ''root''
      else if str_includes lower (js ''stem'') \<or> str_includes lower (js ''stalk'') then js ''stem''
      else if str_includes lower (js ''oil'') then js ''seed''
      else if str_includes lower (js ''whole plant'') then js ''whole plant''
      else js ''unspecified'')"

definition extractIndustry :: "jstring \<Rightarrow> jstring" where
  "extractIndustry text =
     (let lower = toLowerCase text in
      if str_includes lower (js ''food'') \<or> str_includes lower (js ''nutrition'') then js ''Food & Nutrition''
      else if str_includes lower (js ''textile'') \<or> str_includes lower (js ''fabric'')
              \<or> str_includes lower (js ''clothing'') then js ''Textiles''
      else if str_includes lower (js ''construction'') \<or> str_includes lower (js ''building'')
           then js ''Construction''
      else if str_includes lower (js ''automotive'') \<or> str_includes lower (js ''car'') then js ''Automotive''
      else if str_includes lower (js ''cosmetic'') \<or> str_includes lower (js ''beauty'') then js ''Cosmetics''
      else if str_includes lower (js ''pharmaceutical'') \<or> str_includes lower (js ''medicine'')
           then js ''Pharmaceutical''
      else if str_includes lower (js ''paper'') \<or> str_includes lower (js ''pulp'') then js ''Paper''
      else if str_includes lower (js ''plastic'') \<or> str_includes lower (js ''bioplastic'')
           then js ''Bioplastics''
      else if str_includes lower (js ''energy'') \<or> str_includes lower (js ''fuel'') then js ''Energy''
      else js ''Other'')"

text \<open>
  An item of a JSON source, as far as \<open>parseJSONItem\<close> reads it: an object with the
  properties below, each absent (also when it is \<open>null\<close>) or of the type that \<open>HempProduct\<close>
  gives the field it fills. An item that is not an object is \<open>None\<close>. Properties of other
  types pass the source's \<open>any\<close> and are outside the model.
\<close>

record 's JsonItem =
  item_product :: "jstring option"
  item_name :: "jstring option"
  item_title :: "jstring option"
  item_item :: "jstring option"
  item_description :: "jstring option"
  item_details :: "jstring option"
  item_use :: "jstring option"
  item_plant_part :: "jstring option"
  item_part :: "jstring option"
  item_industry :: "jstring option"
  item_sector :: "jstring option"
  item_benefits :: "jstring list option"
  item_advantages :: "jstring list option"
  item_specifications :: "'s option"
  item_specs :: "'s option"
  item_keywords :: "jstring list option"
  item_tags :: "jstring list option"

text \<open>\<open>a || b\<close> on optional strings: the empty string and an absent value are falsy.\<close>

definition or_text :: "jstring option \<Rightarrow> jstring option \<Rightarrow> jstring option" where
  "or_text a b = (case a of None \<Rightarrow> b | Some s \<Rightarrow> if s = [] then b else Some s)"

text \<open>\<open>a || b\<close> on optional arrays and objects: every array and object is truthy.\<close>

definition or_value :: "'a option \<Rightarrow> 'a option \<Rightarrow> 'a option" where
  "or_value a b = (case a of None \<Rightarrow> b | Some v \<Rightarrow> Some v)"

text \<open>The last operand of a chain of \<open>||\<close> that is a string in any case.\<close>

definition or_default :: "jstring option \<Rightarrow> jstring \<Rightarrow> jstring" where
  "or_default a d = (case a of None \<Rightarrow> d | Some s \<Rightarrow> if s = [] then d else s)"

definition parseJSONItem :: "'s JsonItem option \<Rightarrow> jstring \<Rightarrow> 's HempProduct option" where
  "parseJSONItem item sourceUrl =
     (case item of
        None \<Rightarrow> None
      | Some obj \<Rightarrow>
          (let name = or_default
                 (or_text (item_product obj) (or_text (item_name obj) (or_text (item_title obj) (item_item obj)))) [];
               description = or_default
                 (or_text (item_description obj) (or_text (item_details obj) (item_use obj))) []
           in if name = [] then None
              else Some
                \<lparr> product_name = name,
                  plant_part = or_default (or_text (item_plant_part obj) (item_part obj))
                                 (extractPlantPart (name @ js '' '' @ description)),
                  industry = or_default (or_text (item_industry obj) (item_sector obj))
                               (extractIndustry (name @ js '' '' @ description)),
                  description = description,
                  source_url = sourceUrl,
                  benefits = or_value (item_benefits obj) (item_advantages obj),
                  technical_specs = or_value (item_specifications obj) (item_specs obj),
                  sustainability_aspects = None,
                  keywords_field = or_value (item_keywords obj) (item_tags obj) \<rparr>))"

text \<open>
  The body of a JSON source: an array of items, an object (its properties in order, each
  an array of items or, \<open>None\<close>, something else) or a value of another type (a number, a
  string, a boolean). The body \<open>null\<close>, on which \<open>Object.keys\<close> throws, is not among them.
  \<open>scrapeJSON\<close> on the body that the request has returned; the request and the pacing
  delay are not modelled.
\<close>

datatype 's json_data =
    DataArray "'s JsonItem option list"
  | DataObject "(jstring \<times> 's JsonItem option list option) list"
  | DataOther

definition parseItems :: "'s JsonItem option list \<Rightarrow> jstring \<Rightarrow> 's HempProduct list" where
  "parseItems items url = List.map_filter (\<lambda>item. parseJSONItem item url) items"

definition scrapeJSON :: "'s json_data \<Rightarrow> jstring \<Rightarrow> 's HempProduct list" where
  "scrapeJSON data url =
     (case data of
        DataArray items \<Rightarrow> parseItems items url
      | DataObject props \<Rightarrow>
          concat (map (\<lambda>(key, v). case v of None \<Rightarrow> [] | Some items \<Rightarrow> parseItems items url) props)
      | DataOther \<Rightarrow> [])"

section \<open>Companies\<close>

record Company =
  company_name :: jstring
  company_website :: "jstring option"
  company_description :: "jstring option"
  primary_focus :: "jstring option"

text \<open>\<open>[A-Z]\<close> under the flag \<open>i\<close>, and \<open>[\w\s&-]\<close>.\<close>

definition is_letter :: "jchar \<Rightarrow> bool" where
  "is_letter c = ((65 \<le> code c \<and> code c \<le> 90) \<or> (97 \<le> code c \<and> code c \<le> 122))"

definition is_name_char :: "jchar \<Rightarrow> bool" where
  "is_name_char c = (is_word c \<or> is_space c \<or> c = Latin (CHR ''&'') \<or> c = Latin (CHR ''-''))"

definition company_rx :: rx where
  "company_rx = Seq (Cls is_letter) (Plus is_name_char)"

definition companyPatterns :: "rx list" where
  "companyPatterns =
     [ Seq (Alt (Lit (js ''manufactured by'')) (Alt (Lit (js ''produced by'')) (Alt (Lit (js ''made by'')) (Lit (js ''from'')))))
         (Seq (Plus is_space) (Grp company_rx)),
       Seq (Grp company_rx)
         (Seq (Plus is_space)
            (Alt (Lit (js ''brand'')) (Alt (Lit (js ''company'')) (Alt (Lit (js ''corporation''))
              (Alt (Seq (Lit (js ''inc'')) (Opt (Lit (js ''.'')))) (Alt (Seq (Lit (js ''ltd'')) (Opt (Lit (js ''.''))))
                (Lit (js ''llc'')))))))),
       Seq (Lit [Latin (CHR 0xA9)])
         (Seq (Star is_space)
            (Seq (Opt (Grp (Seq (Cls is_digit) (Seq (Cls is_digit) (Seq (Cls is_digit)
                    (Seq (Cls is_digit) (Plus is_space)))))))
               (Grp company_rx))) ]"

text \<open>\<open>match[n]\<close> for \<open>n\<close> from 1: absent when the pattern has no such group.\<close>

definition group :: "nat \<Rightarrow> jstring option list \<Rightarrow> jstring option" where
  "group n g = (if 0 < n \<and> n \<le> length g then g ! (n - 1) else None)"

definition companies_of :: "'s HempProduct \<Rightarrow> Company list" where
  "companies_of product =
     (let text = description product @ js '' '' @ source_url product in
      concat (map (\<lambda>pattern.
        concat (map (\<lambda>g.
          case or_text (group 2 g) (group 1 g) of
            None \<Rightarrow> []
          | Some m \<Rightarrow>
              (let companyName = cleanText m in
               if companyName \<noteq> [] \<and> length companyName > 2
               then [\<lparr> company_name = companyName, company_website = None,
                       company_description = None, primary_focus = Some (industry product) \<rparr>]
               else []))
          (matchAll pattern 0 text)))
        companyPatterns))"

text \<open>The map \<open>uniqueCompanies\<close>, local to the call: the first company of every
  lower-cased name, in the order of insertion.\<close>

fun uniqueCompanies :: "jstring list \<Rightarrow> Company list \<Rightarrow> Company list" where
  "uniqueCompanies keys [] = []"
| "uniqueCompanies keys (company # rest) =
     (let key = toLowerCase (company_name company) in
      if key \<in> set keys then uniqueCompanies keys rest
      else company # uniqueCompanies (key # keys) rest)"

definition extractCompanies :: "'s HempProduct list \<Rightarrow> Company list" where
  "extractCompanies products = uniqueCompanies [] (concat (map companies_of products))"

section \<open>Discovery\<close>

datatype source_type = Html | Csv | Json | Pdf

record DataSource =
  url :: jstring
  type :: source_type
  score :: real
  size_estimate :: "real option"
  license :: "jstring option"
  last_updated :: "nat option"

text \<open>\<open>config.discovery\<close>. The weights \<open>license\<close> and \<open>structure\<close> are \<open>licenseWeight\<close> and
  \<open>structureWeight\<close>: the first name is a field of \<open>DataSource\<close>, the second is reserved.\<close>

record ScoringWeights =
  datasetSize :: real
  licenseWeight :: real
  structureWeight :: real
  freshness :: real

record DiscoveryConfig =
  scoringWeights :: ScoringWeights
  minScoreThreshold :: real

definition config_discovery :: DiscoveryConfig where
  "config_discovery =
     \<lparr> scoringWeights =
         \<lparr> datasetSize = 0.3, licenseWeight = 0.2, structureWeight = 0.3, freshness = 0.2 \<rparr>,
       minScoreThreshold = 0.6 \<rparr>"

definition openLicenses :: "jstring list" where
  "openLicenses =
     map js
      [''mit'', ''apache'', ''gpl'', ''bsd'', ''cc-by'', ''cc0'', ''public domain'',
      ''unlicense'', ''creative commons'', ''open data'', ''open government'']"

definition isOpenLicense :: "jstring \<Rightarrow> bool" where
  "isOpenLicense l = list_ex (\<lambda>open_l. str_includes (toLowerCase l) open_l) openLicenses"

text \<open>
  The body of the \<open>map\<close> of \<open>Discovery.scoreSources\<close>: the additions to \<open>score\<close> in the
  order of the source. The numbers of the source are floating-point numbers; the model
  adds and compares them as real numbers.
\<close>

definition scoreSource :: "ScoringWeights \<Rightarrow> DataSource \<Rightarrow> DataSource" where
  "scoreSource weights source =
     (let score0 = 0;
          score1 = score0 +
            (if type source = Csv \<or> type source = Json then structureWeight weights * 1.0
             else if type source = Html then structureWeight weights * 0.5
             else if type source = Pdf then structureWeight weights * 0.3
             else 0);
          score2 = score1 +
            (if (case license source of None \<Rightarrow> False | Some l \<Rightarrow> l \<noteq> [] \<and> isOpenLicense l)
             then licenseWeight weights * 1.0 else licenseWeight weights * 0.5);
          score3 = score2 +
            (if str_includes (url source) (js ''.gov'') \<or> str_includes (url source) (js ''.org'')
             then 0.1 else 0);
          score4 = score3 +
            (if str_includes (url source) (js ''usda'') \<or> str_includes (url source) (js ''europa'')
             then 0.15 else 0);
          score5 = score4 + datasetSize weights * 0.5;
          score6 = score5 + freshness weights * 0.5
      in source \<lparr> score := score6 \<rparr>)"

definition scoreSources :: "DiscoveryConfig \<Rightarrow> DataSource list \<Rightarrow> DataSource list" where
  "scoreSources cfg sources = map (scoreSource (scoringWeights cfg)) sources"

text \<open>\<open>filteredSources.sort((a, b) => b.score - a.score)\<close>: a stable sort, the highest score
  first.\<close>

definition sort_by_score :: "DataSource list \<Rightarrow> DataSource list" where
  "sort_by_score sources = sort_key (\<lambda>source. - score source) sources"

text \<open>
  \<open>Discovery.findDataSources\<close> on \<open>allSources\<close>, the sources that the search strategies
  have found (they read the file system and the network, and are not modelled):
  \<open>filteredSources\<close> is the variable of that name, sorted in place and then sliced.
\<close>

definition filteredSources :: "DiscoveryConfig \<Rightarrow> DataSource list \<Rightarrow> DataSource list" where
  "filteredSources cfg allSources =
     filter (\<lambda>source. score source \<ge> minScoreThreshold cfg) (scoreSources cfg allSources)"

definition findDataSources :: "DiscoveryConfig \<Rightarrow> DataSource list \<Rightarrow> DataSource list" where
  "findDataSources cfg allSources = take 10 (sort_by_score (filteredSources cfg allSources))"

section \<open>The harvester\<close>

record HarvestRunResult =
  products_found :: nat
  products_saved :: nat
  companies_saved :: nat
  duplicates_skipped :: nat
  errors :: "jstring list"
  duration_ms :: nat

text \<open>The row of a run in the table of runs: \<open>createRun\<close> inserts it, \<open>updateRun\<close> changes
  it.\<close>

datatype run_status = Running | Completed | Failed

record RunRow =
  status :: run_status
  row_products_found :: nat
  row_products_saved :: nat
  row_companies_saved :: nat
  error_message :: "jstring option"

text \<open>
  What a run meets outside the harvester: the database, the network and the clock.
  \<open>verifyConnection\<close> is the result of that function; \<open>ensureSchema\<close>, \<open>createRun\<close> and
  \<open>updateRun\<close> say whether the call returns (\<open>True\<close>) or throws; \<open>allSources\<close> is what the
  search strategies find; \<open>scrape\<close> gives the products of \<open>Scraper.scrape\<close>, which catches
  its own errors; \<open>storeProducts\<close> and \<open>storeCompanies\<close> give the number of rows that the
  database reports for an upsert; \<open>elapsed\<close> is the time the run takes; \<open>sha256\<close> is the
  digest of \<open>generateHash\<close>.
\<close>

record 's World =
  verifyConnection :: bool
  ensureSchema :: bool
  createRun :: bool
  updateRun :: bool
  allSources :: "DataSource list"
  scrape :: "DataSource \<Rightarrow> 's HempProduct list"
  storeProducts :: "'s HempProduct list \<Rightarrow> nat"
  storeCompanies :: "Company list \<Rightarrow> nat"
  elapsed :: nat
  sha256 :: "jstring \<Rightarrow> jstring"

text \<open>\<open>DatabaseService.saveProducts\<close> and \<open>saveCompanies\<close>: nothing is sent for an empty
  list. Both catch the errors of the database and return a count.\<close>

definition saveProducts :: "'s World \<Rightarrow> 's HempProduct list \<Rightarrow> nat" where
  "saveProducts world products = (if products = [] then 0 else storeProducts world products)"

definition saveCompanies :: "'s World \<Rightarrow> Company list \<Rightarrow> nat" where
  "saveCompanies world companies = (if companies = [] then 0 else storeCompanies world companies)"

text \<open>
  The state of the loop over the sources in \<open>runOnce\<close>: the result so far, the
  \<open>seenHashes\<close> of the harvester's processor, and the records handed to \<open>saveProducts\<close> so
  far, in the order of the calls.
\<close>

record 's SourceLoop =
  loop_result :: HarvestRunResult
  loop_seen :: "jstring set"
  loop_saved :: "'s HempProduct list"

text \<open>
  The body of the loop. No call in it throws on data of the types of the source, so that
  the \<open>catch\<close> of the loop adds nothing to \<open>errors\<close>.
\<close>

definition process_source :: "'s World \<Rightarrow> 's SourceLoop \<Rightarrow> DataSource \<Rightarrow> 's SourceLoop" where
  "process_source world acc source =
     (let result = loop_result acc;
          products = scrape world source;
          processed = process (sha256 world) (loop_seen acc) products;
          saved = saveProducts world (unique processed);
          companies = extractCompanies (unique processed);
          savedCompanies = saveCompanies world companies
      in \<lparr> loop_result =
             result \<lparr> products_found := products_found result + length products,
                      products_saved := products_saved result + saved,
                      duplicates_skipped := duplicates_skipped result + duplicates processed,
                      companies_saved := companies_saved result + savedCompanies \<rparr>,
           loop_seen = seenHashes processed,
           loop_saved = loop_saved acc @ unique processed \<rparr>)"

datatype harvest_error = ConnectionFailed | SchemaFailed | CreateRunFailed | UpdateRunFailed

text \<open>
  What a run leaves: the result that \<open>runOnce\<close> returns or the error it throws, the row of
  the run (\<open>None\<close> when \<open>createRun\<close> was not reached or threw), the \<open>seenHashes\<close> of the
  harvester's processor, and the records that the run has emitted, that is, handed to
  \<open>saveProducts\<close>.
\<close>

record 's RunOutcome =
  returned :: "harvest_error + HarvestRunResult"
  run_row :: "RunRow option"
  processor_seen :: "jstring set"
  emitted :: "'s HempProduct list"

text \<open>
  \<open>DataHarvester.runOnce\<close> on a harvester whose processor has the \<open>seenHashes\<close> \<open>seen\<close>.
  When the update to \<open>completed\<close> throws, the \<open>catch\<close> tries the update to \<open>failed\<close>, which
  throws as well: the row stays as \<open>createRun\<close> has written it.
\<close>

definition runOnce :: "DiscoveryConfig \<Rightarrow> 's World \<Rightarrow> jstring set \<Rightarrow> 's RunOutcome" where
  "runOnce cfg world seen =
     (if \<not> verifyConnection world
      then \<lparr> returned = Inl ConnectionFailed, run_row = None, processor_seen = seen,
             emitted = [] \<rparr>
      else if \<not> ensureSchema world
      then \<lparr> returned = Inl SchemaFailed, run_row = None, processor_seen = seen,
             emitted = [] \<rparr>
      else if \<not> createRun world
      then \<lparr> returned = Inl CreateRunFailed, run_row = None, processor_seen = seen,
             emitted = [] \<rparr>
      else
        (let row = \<lparr> status = Running, row_products_found = 0, row_products_saved = 0,
                     row_companies_saved = 0, error_message = None \<rparr>;
             sources = findDataSources cfg (allSources world);
             start = \<lparr> products_found = 0, products_saved = 0, companies_saved = 0,
                       duplicates_skipped = 0, errors = [], duration_ms = 0 \<rparr>;
             done = foldl (process_source world)
                      \<lparr> loop_result = start, loop_seen = seen, loop_saved = [] \<rparr> sources;
             result = (loop_result done) \<lparr> duration_ms := elapsed world \<rparr>
         in if updateRun world
            then \<lparr> returned = Inr result,
                   run_row = Some
                     \<lparr> status = Completed,
                       row_products_found = products_found result,
                       row_products_saved = products_saved result,
                       row_companies_saved = companies_saved result,
                       error_message =
                         (if length (errors result) > 0 then Some (join (js ''; '') (errors result))
                          else None) \<rparr>,
                   processor_seen = loop_seen done,
                   emitted = loop_saved done \<rparr>
            else \<lparr> returned = Inl UpdateRunFailed, run_row = Some row,
                   processor_seen = loop_seen done, emitted = loop_saved done \<rparr>))"



section \<open>Inputs of the examples\<close>

text \<open>The writing of a cell in a CSV line: in quotes, every quote of the cell doubled.\<close>

definition csv_quoted :: "jstring \<Rightarrow> jstring" where
  "csv_quoted s =
     quote # concat (map (\<lambda>c. if c = quote then [quote, quote] else [c]) s) @ [quote]"

text \<open>Two records whose names are long enough only with their decoration.\<close>

definition decorated_short :: "unit HempProduct" where
  "decorated_short =
     \<lparr> product_name = js '' - AB '', plant_part = js ''fiber'', industry = js ''Textiles'',
       description = js ''Hemp rope'', source_url = js ''https://example.org/a.json'',
       benefits = None, technical_specs = None, sustainability_aspects = None,
       keywords_field = None \<rparr>"

definition decorated_bare :: "unit HempProduct" where
  "decorated_bare =
     \<lparr> product_name = js ''- CBD'', plant_part = js ''flower'', industry = js ''Cosmetics'',
       description = js ''  '', source_url = js ''https://example.org/a.json'',
       benefits = None, technical_specs = None, sustainability_aspects = None,
       keywords_field = None \<rparr>"

text \<open>A source below the threshold, and a world in which it is all that discovery finds.\<close>

definition weak_source :: DataSource where
  "weak_source =
     \<lparr> url = js ''https://hempindustrydaily.com/data/'', type = Html, score = 0,
       size_estimate = None, license = None, last_updated = None \<rparr>"

definition quiet_world :: "unit World" where
  "quiet_world =
     \<lparr> verifyConnection = True, ensureSchema = True, createRun = True, updateRun = True,
       allSources = [weak_source], scrape = (\<lambda>source. []), storeProducts = length,
       storeCompanies = length, elapsed = 1200, sha256 = (\<lambda>key. key) \<rparr>"

text \<open>A source with every bonus.\<close>

definition best_source :: DataSource where
  "best_source =
     \<lparr> url = js ''https://www.usda.gov/sites/default/files/documents/hemp-report.csv'', type = Csv,
       score = 0, size_estimate = None, license = Some (js ''Public Domain''), last_updated = None \<rparr>"

text \<open>A source that reaches the threshold exactly, and eighteen sources of which twelve
  reach it.\<close>

definition fair_source :: DataSource where
  "fair_source =
     \<lparr> url = js ''https://thehia.org/resources/hemp-products/'', type = Html, score = 0,
       size_estimate = None, license = None, last_updated = None \<rparr>"

definition many_sources :: "DataSource list" where
  "many_sources =
     concat (replicate 6 [weak_source, fair_source, best_source])"

text \<open>The JSON item of the end-to-end example, and the product that \<open>parseJSONItem\<close> makes
  of it for the source \<open>u\<close>.\<close>

definition rope_item :: "unit JsonItem" where
  "rope_item =
     \<lparr> item_product = None, item_name = Some (js ''Hemp Rope''), item_title = None, item_item = None,
       item_description = Some (js ''Sustainable hemp fiber rope, biodegradable''),
       item_details = None, item_use = None, item_plant_part = Some (js ''fiber''), item_part = None,
       item_industry = Some (js ''Textiles''), item_sector = None, item_benefits = None,
       item_advantages = None, item_specifications = None, item_specs = None,
       item_keywords = None, item_tags = None \<rparr>"

definition rope_raw :: "jstring \<Rightarrow> unit HempProduct" where
  "rope_raw u =
     \<lparr> product_name = js ''Hemp Rope'', plant_part = js ''fiber'', industry = js ''Textiles'',
       description = js ''Sustainable hemp fiber rope, biodegradable'', source_url = u,
       benefits = None, technical_specs = None, sustainability_aspects = None,
       keywords_field = None \<rparr>"

text \<open>Two calls of \<open>process\<close> on one processor: the second product of the first call has
  the content of the first, the last is not valid; the second call brings the first
  product again.\<close>

definition not_hemp :: "unit HempProduct" where
  "not_hemp =
     \<lparr> product_name = js ''Cotton Rope'', plant_part = js ''fiber'', industry = js ''Textiles'',
       description = js ''A rope'', source_url = js ''https://example.org/a.json'',
       benefits = None, technical_specs = None, sustainability_aspects = None,
       keywords_field = None \<rparr>"

definition rope_shouted :: "unit HempProduct" where
  "rope_shouted = (rope_raw (js ''b'')) \<lparr> product_name := js ''  hemp ROPE'' \<rparr>"

definition two_calls :: "unit HempProduct list list" where
  "two_calls =
     [[rope_raw (js ''a''), rope_shouted, decorated_short, not_hemp],
      [rope_raw (js ''c''), decorated_bare]]"



text \<open>Products for the content hash: one written in three ways, one whose name ends in
  the letter U+00C9 or U+00E9, and two whose names and plant parts divide the same text
  at different places.\<close>

definition plain_oil :: "unit HempProduct" where
  "plain_oil =
     \<lparr> product_name = js ''Hemp Oil'', plant_part = js ''seed'', industry = js ''Cosmetics'',
       description = js ''Cold pressed'', source_url = js ''https://example.org/a.json'',
       benefits = None, technical_specs = None, sustainability_aspects = None,
       keywords_field = None \<rparr>"

definition shouted_oil :: "unit HempProduct" where
  "shouted_oil =
     \<lparr> product_name = js ''  HEMP Oil '', plant_part = js '' Seed'', industry = js ''COSMETICS  '',
       description = js ''Another text'', source_url = js ''https://example.org/b.csv'',
       benefits = Some [js ''soft skin''], technical_specs = None, sustainability_aspects = None,
       keywords_field = None \<rparr>"

definition cafe_shouted :: "unit HempProduct" where
  "cafe_shouted = plain_oil \<lparr> product_name := js ''HEMP CAF'' @ [Latin (CHR 0xC9)] \<rparr>"

definition cafe_plain :: "unit HempProduct" where
  "cafe_plain = plain_oil \<lparr> product_name := js ''hemp caf'' @ [Latin (CHR 0xE9)] \<rparr>"

definition dashed_oil :: "unit HempProduct" where
  "dashed_oil = plain_oil \<lparr> product_name := js ''-Hemp Oil'' \<rparr>"

definition bar_left :: "unit HempProduct" where
  "bar_left = plain_oil \<lparr> product_name := js ''Hemp|Seed'', plant_part := js ''oil'' \<rparr>"

definition bar_right :: "unit HempProduct" where
  "bar_right = plain_oil \<lparr> product_name := js ''Hemp'', plant_part := js ''seed|oil'' \<rparr>"

section \<open>Evaluation\<close>

lemmas char_class_defs = is_space_def is_digit_def is_word_def is_control_def
  is_decoration_def

text \<open>\<open>lower_char\<close> on the bits of a Latin-1 code unit: a capital becomes its small letter
  by the bit of 32. These equations evaluate \<open>toLowerCase\<close> without the table.\<close>

lemma lower_char_Latin:
  "lower_char (Latin (Char b0 b1 b2 b3 b4 b5 b6 b7)) =
     Latin (Char b0 b1 b2 b3 b4
       (b5 \<or> (b6 \<and> (if b7 then \<not> (b4 \<and> b2 \<and> b1 \<and> b0)
                      else (b4 \<or> b3 \<or> b2 \<or> b1 \<or> b0) \<and> \<not> (b4 \<and> b3 \<and> (b2 \<or> (b1 \<and> b0))))))
       b6 b7)"
  by (cases b0; cases b1; cases b2; cases b3; cases b4; cases b5; cases b6; cases b7;
      simp add: lower_char_def upper_letters_def lower_letters_def)

lemma lower_char_others:
  "lower_char Capital_Mu = Small_Mu"
  "lower_char Small_Mu = Small_Mu"
  "lower_char Capital_Y_Diaeresis = Latin (CHR 0xFF)"
  "lower_char Bullet = Bullet"
  "lower_char En_Dash = En_Dash"
  "lower_char Em_Dash = Em_Dash"
  by (simp_all add: lower_char_def upper_letters_def lower_letters_def)

declare lower_char_Latin [code] lower_char_others [code]

lemmas case_defs = lower_char_Latin lower_char_others upper_units_def upper_letters_def
  lower_letters_def toLowerCase_def toUpperCase_def

lemmas validator_defs = isValidProduct_def is_numeric_def isValidPlantPart_def
  validPlantParts_def trim_def

section \<open>The validator on the examples of the specification\<close>

text \<open>
  Claim C3. \<open>isValidProduct\<close> rejects every record whose name is \<open>12345\<close>, every record
  whose name is \<open>Hemp\<close> and whose plant part is \<open>42\<close>, every record whose industry is
  \<open>Other\<close>, every record whose plant part is \<open>banana\<close> and every record whose name is
  \<open>AB\<close>, whatever its other fields are. It accepts the record with the name
  \<open>Hemp Seed Oil\<close>, the description \<open>Used in cooking and cosmetics\<close>, the plant part
  \<open>seed\<close> and the industry \<open>Food & Nutrition\<close>, whatever its source and its optional
  fields are: the description has more than 20 characters, so that the rule on gists
  does not fire either.
\<close>

theorem isValidProduct_examples:
  "(\<forall>p :: 's HempProduct. product_name p = js ''12345'' \<longrightarrow> \<not> isValidProduct p)
   \<and> (\<forall>p :: 's HempProduct. product_name p = js ''Hemp'' \<and> plant_part p = js ''42''
          \<longrightarrow> \<not> isValidProduct p)
   \<and> (\<forall>p :: 's HempProduct. industry p = js ''Other'' \<longrightarrow> \<not> isValidProduct p)
   \<and> (\<forall>p :: 's HempProduct. plant_part p = js ''banana'' \<longrightarrow> \<not> isValidProduct p)
   \<and> (\<forall>p :: 's HempProduct. product_name p = js ''AB'' \<longrightarrow> \<not> isValidProduct p)
   \<and> (\<forall>url b (t :: 's option) s k.
         isValidProduct
           \<lparr> product_name = js ''Hemp Seed Oil'', plant_part = js ''seed'',
             industry = js ''Food & Nutrition'', description = js ''Used in cooking and cosmetics'',
             source_url = url, benefits = b, technical_specs = t,
             sustainability_aspects = s, keywords_field = k \<rparr>)"
proof (intro conjI allI impI)
  fix p :: "'s HempProduct"
  assume "product_name p = js ''12345''"
  then show "\<not> isValidProduct p"
    by (simp add: validator_defs char_class_defs)
next
  fix p :: "'s HempProduct"
  assume "product_name p = js ''Hemp'' \<and> plant_part p = js ''42''"
  then show "\<not> isValidProduct p"
    by (simp add: validator_defs char_class_defs)
next
  fix p :: "'s HempProduct"
  assume "industry p = js ''Other''"
  then show "\<not> isValidProduct p"
    by (simp add: isValidProduct_def)
next
  fix p :: "'s HempProduct"
  assume "plant_part p = js ''banana''"
  then have "\<not> isValidPlantPart (toLowerCase (plant_part p))"
    by (simp add: isValidPlantPart_def validPlantParts_def case_defs)
  then show "\<not> isValidProduct p"
    by (simp add: isValidProduct_def)
next
  fix p :: "'s HempProduct"
  assume "product_name p = js ''AB''"
  then show "\<not> isValidProduct p"
    by (simp add: isValidProduct_def)
next
  fix url b s k and t :: "'s option"
  show "isValidProduct
           \<lparr> product_name = js ''Hemp Seed Oil'', plant_part = js ''seed'',
             industry = js ''Food & Nutrition'', description = js ''Used in cooking and cosmetics'',
             source_url = url, benefits = b, technical_specs = t,
             sustainability_aspects = s, keywords_field = k \<rparr>"
    by (simp add: validator_defs char_class_defs case_defs)
qed

text \<open>
  The rejections at records that differ from an accepted one in the named fields only,
  and the acceptance at a source that is a gist.
\<close>

theorem isValidProduct_examples_witness:
  "\<not> isValidProduct
       \<lparr> product_name = js ''12345'', plant_part = js ''seed'', industry = js ''Food & Nutrition'',
         description = js ''Hemp oil used in cooking and cosmetics'', source_url = js ''https://example.org/a.json'',
         benefits = None, technical_specs = None :: unit option,
         sustainability_aspects = None, keywords_field = None \<rparr>
   \<and> \<not> isValidProduct
       \<lparr> product_name = js ''Hemp'', plant_part = js ''42'', industry = js ''Food & Nutrition'',
         description = js ''Hemp oil used in cooking and cosmetics'', source_url = js ''https://example.org/a.json'',
         benefits = None, technical_specs = None :: unit option,
         sustainability_aspects = None, keywords_field = None \<rparr>
   \<and> \<not> isValidProduct
       \<lparr> product_name = js ''Hemp Seed Oil'', plant_part = js ''seed'', industry = js ''Other'',
         description = js ''Hemp oil used in cooking and cosmetics'', source_url = js ''https://example.org/a.json'',
         benefits = None, technical_specs = None :: unit option,
         sustainability_aspects = None, keywords_field = None \<rparr>
   \<and> \<not> isValidProduct
       \<lparr> product_name = js ''Hemp Seed Oil'', plant_part = js ''banana'', industry = js ''Food & Nutrition'',
         description = js ''Hemp oil used in cooking and cosmetics'', source_url = js ''https://example.org/a.json'',
         benefits = None, technical_specs = None :: unit option,
         sustainability_aspects = None, keywords_field = None \<rparr>
   \<and> \<not> isValidProduct
       \<lparr> product_name = js ''AB'', plant_part = js ''seed'', industry = js ''Food & Nutrition'',
         description = js ''Hemp oil used in cooking and cosmetics'', source_url = js ''https://example.org/a.json'',
         benefits = None, technical_specs = None :: unit option,
         sustainability_aspects = None, keywords_field = None \<rparr>
   \<and> isValidProduct
       \<lparr> product_name = js ''Hemp Seed Oil'', plant_part = js ''seed'', industry = js ''Food & Nutrition'',
         description = js ''Used in cooking and cosmetics'', source_url = js ''https://gist.github.com/a.json'',
         benefits = None, technical_specs = None :: unit option,
         sustainability_aspects = None, keywords_field = None \<rparr>"
  using isValidProduct_examples [where ?'s = unit] by simp

section \<open>Validation comes before cleaning\<close>

lemma process_single_valid:
  "isValidProduct p \<Longrightarrow> generateHash digest (cleanProduct p) \<notin> seen \<Longrightarrow>
   process digest seen [p] =
     \<lparr> unique = [enrichProduct (cleanProduct p)], duplicates = 0, invalid = 0,
       seenHashes = insert (generateHash digest (cleanProduct p)) seen \<rparr>"
  by (simp add: process_def process_step_def Let_def)

lemma decorated_short_valid: "isValidProduct decorated_short"
  by (simp add: decorated_short_def validator_defs char_class_defs case_defs)

lemma decorated_bare_valid: "isValidProduct decorated_bare"
  by (simp add: decorated_bare_def validator_defs char_class_defs case_defs)

lemma decorated_short_cleaned: "product_name (cleanProduct decorated_short) = js ''AB''"
  by (simp add: decorated_short_def cleanProduct_def cleanText_def trim_def char_class_defs)

lemma decorated_bare_cleaned: "product_name (cleanProduct decorated_bare) = js ''CBD''"
  by (simp add: decorated_bare_def cleanProduct_def cleanText_def trim_def char_class_defs)

text \<open>
  Claim C10. \<open>isValidProduct\<close> reads the fields as they come, before \<open>cleanProduct\<close>. The
  record \<open>decorated_short\<close>, whose name \<open> - AB \<close> has six characters, is accepted, and the
  record that \<open>process\<close> emits for it has the name \<open>AB\<close>, shorter than three characters. The
  record \<open>decorated_bare\<close>, whose description is blank and whose name \<open>- CBD\<close> has five
  characters, is accepted, and the record emitted for it has the name \<open>CBD\<close>, shorter than
  five characters.
\<close>

theorem validation_before_cleaning:
  "isValidProduct decorated_short
   \<and> length (product_name decorated_short) \<ge> 3
   \<and> map product_name (unique (process digest {} [decorated_short])) = [js ''AB'']
   \<and> isValidProduct decorated_bare
   \<and> trim (description decorated_bare) = []
   \<and> length (product_name decorated_bare) \<ge> 5
   \<and> map product_name (unique (process digest {} [decorated_bare])) = [js ''CBD'']"
proof -
  have "map product_name (unique (process digest {} [decorated_short])) = [js ''AB'']"
    using decorated_short_cleaned
    by (simp add: process_single_valid decorated_short_valid enrichProduct_def)
  moreover have "map product_name (unique (process digest {} [decorated_bare])) = [js ''CBD'']"
    using decorated_bare_cleaned
    by (simp add: process_single_valid decorated_bare_valid enrichProduct_def)
  moreover have "length (product_name decorated_short) \<ge> 3"
    and "length (product_name decorated_bare) \<ge> 5"
    and "trim (description decorated_bare) = []"
    by (simp_all add: decorated_short_def decorated_bare_def trim_def char_class_defs)
  ultimately show ?thesis
    using decorated_short_valid decorated_bare_valid by simp
qed

theorem validation_before_cleaning_witness:
  "map product_name (unique (process (\<lambda>key. key) {} [decorated_short])) = [js ''AB'']
   \<and> map product_name (unique (process (\<lambda>key. key) {} [decorated_bare])) = [js ''CBD'']"
  using validation_before_cleaning [of "\<lambda>key. key"] by simp

section \<open>The CSV line parser\<close>

lemma parseLoop_quoted:
  "rest = [] \<or> hd rest \<noteq> quote \<Longrightarrow>
   parseLoop result current True
     (concat (map (\<lambda>c. if c = quote then [quote, quote] else [c]) s) @ quote # rest)
   = parseLoop result (current @ s) False rest"
proof (induction s arbitrary: current)
  case Nil
  then show ?case by (cases rest) auto
next
  case (Cons c s)
  show ?case
  proof (cases "c = quote")
    case True
    then show ?thesis using Cons.IH [OF Cons.prems, of "current @ [quote]"] by simp
  next
    case False
    then show ?thesis using Cons.IH [OF Cons.prems, of "current @ [c]"] by simp
  qed
qed

lemma comma_not_quote: "Latin (CHR '','') \<noteq> quote"
  by (simp add: quote_def)

lemma parseLoop_quoted_last: "parseLoop result [] False (csv_quoted s) = result @ [trim s]"
proof -
  have "parseLoop result [] False (csv_quoted s)
        = parseLoop result [] True
            (concat (map (\<lambda>c. if c = quote then [quote, quote] else [c]) s) @ quote # [])"
    by (cases s) (simp_all add: csv_quoted_def)
  then show ?thesis using parseLoop_quoted [of "[]" result "[]" s] by simp
qed

lemma parseLoop_quoted_comma:
  "parseLoop result [] False (csv_quoted s @ Latin (CHR '','') # rest)
   = parseLoop (result @ [trim s]) [] False rest"
proof -
  have "parseLoop result [] False (csv_quoted s @ Latin (CHR '','') # rest)
        = parseLoop result [] True
            (concat (map (\<lambda>c. if c = quote then [quote, quote] else [c]) s)
             @ quote # Latin (CHR '','') # rest)"
    by (cases s) (simp_all add: csv_quoted_def)
  also have "\<dots> = parseLoop result ([] @ s) False (Latin (CHR '','') # rest)"
    by (rule parseLoop_quoted) (simp add: comma_not_quote)
  finally show ?thesis by (simp add: comma_not_quote)
qed

lemma parseLoop_quoted_cells:
  "cells \<noteq> [] \<Longrightarrow>
   parseLoop result [] False (join (js '','') (map csv_quoted cells)) = result @ map trim cells"
proof (induction cells arbitrary: result rule: induct_list012)
  case 1
  then show ?case by simp
next
  case (2 f)
  then show ?case by (simp add: parseLoop_quoted_last)
next
  case (3 f g fs)
  have "parseLoop result [] False (join (js '','') (map csv_quoted (f # g # fs)))
        = parseLoop (result @ [trim f]) [] False (join (js '','') (map csv_quoted (g # fs)))"
    by (simp add: parseLoop_quoted_comma)
  then show ?case using 3 by simp
qed

text \<open>
  Claim C7. \<open>parseCSVLine\<close> splits the line \<open>Hemp Seed, "High in Omega-3, Omega-6",seed\<close>
  into the three cells \<open>Hemp Seed\<close>, \<open>High in Omega-3, Omega-6\<close> and \<open>seed\<close>. In every line,
  two quotes in a row inside a quoted cell put one quote into the cell and leave the
  parser inside the quotes; so a line of quoted cells, their quotes doubled, is parsed
  into these cells, trimmed.
\<close>

theorem parseCSVLine_quotes:
  "parseCSVLine ((js ''Hemp Seed, '') @ [quote] @ js ''High in Omega-3, Omega-6'' @ [quote] @ js '',seed'')
     = [js ''Hemp Seed'', js ''High in Omega-3, Omega-6'', js ''seed'']
   \<and> (\<forall>result current rest.
         parseLoop result current True (quote # quote # rest)
         = parseLoop result (current @ [quote]) True rest)
   \<and> (\<forall>cells. cells \<noteq> [] \<longrightarrow>
         parseCSVLine (join (js '','') (map csv_quoted cells)) = map trim cells)"
proof (intro conjI allI impI)
  show "parseCSVLine ((js ''Hemp Seed, '') @ [quote] @ js ''High in Omega-3, Omega-6'' @ [quote] @ js '',seed'')
     = [js ''Hemp Seed'', js ''High in Omega-3, Omega-6'', js ''seed'']"
    by (simp add: parseCSVLine_def quote_def trim_def is_space_def)
next
  fix result current rest
  show "parseLoop result current True (quote # quote # rest)
        = parseLoop result (current @ [quote]) True rest"
    by simp
next
  fix cells :: "jstring list"
  assume "cells \<noteq> []"
  then show "parseCSVLine (join (js '','') (map csv_quoted cells)) = map trim cells"
    using parseLoop_quoted_cells [of cells "[]"] by (simp add: parseCSVLine_def)
qed

text \<open>The line \<open>"say ""hi"", ok","b"\<close>.\<close>

theorem parseCSVLine_quotes_witness:
  "parseCSVLine
     ([quote] @ js ''say '' @ [quote, quote] @ js ''hi'' @ [quote, quote] @ js '', ok'' @ [quote]
      @ js '','' @ [quote] @ js ''b'' @ [quote])
   = [js ''say '' @ [quote] @ js ''hi'' @ [quote] @ js '', ok'', js ''b'']"
proof -
  have "[js ''say '' @ [quote] @ js ''hi'' @ [quote] @ js '', ok'', js ''b''] \<noteq> []"
    by simp
  with parseCSVLine_quotes
  have "parseCSVLine (join (js '','') (map csv_quoted [js ''say '' @ [quote] @ js ''hi'' @ [quote] @ js '', ok'', js ''b'']))
        = map trim [js ''say '' @ [quote] @ js ''hi'' @ [quote] @ js '', ok'', js ''b'']"
    by blast
  then show ?thesis
    by (simp add: csv_quoted_def quote_def trim_def is_space_def)
qed

section \<open>A run without sources\<close>

text \<open>
  Claim C9. When the database answers (the connection is verified, the schema check, the
  insertion of the run and its update return) and discovery returns no source, \<open>runOnce\<close>
  returns a result with zero products found, zero products saved, zero companies saved,
  zero duplicates skipped and no errors, and the row of the run has the status
  \<open>completed\<close> with the same zero counts and no error message.
\<close>

theorem runOnce_no_sources:
  assumes "verifyConnection world" and "ensureSchema world" and "createRun world"
    and "updateRun world" and "findDataSources cfg (allSources world) = []"
  shows "returned (runOnce cfg world seen) =
           Inr \<lparr> products_found = 0, products_saved = 0, companies_saved = 0,
                 duplicates_skipped = 0, errors = [], duration_ms = elapsed world \<rparr>
         \<and> run_row (runOnce cfg world seen) =
           Some \<lparr> status = Completed, row_products_found = 0, row_products_saved = 0,
                  row_companies_saved = 0, error_message = None \<rparr>
         \<and> processor_seen (runOnce cfg world seen) = seen"
  using assms by (simp add: runOnce_def Let_def)

lemma weak_source_dropped: "findDataSources config_discovery [weak_source] = []"
  by (simp add: findDataSources_def filteredSources_def scoreSources_def scoreSource_def
      config_discovery_def weak_source_def sort_by_score_def Let_def)

theorem runOnce_no_sources_witness:
  "verifyConnection quiet_world \<and> ensureSchema quiet_world \<and> createRun quiet_world
   \<and> updateRun quiet_world
   \<and> findDataSources config_discovery (allSources quiet_world) = []
   \<and> returned (runOnce config_discovery quiet_world {}) =
       Inr \<lparr> products_found = 0, products_saved = 0, companies_saved = 0,
             duplicates_skipped = 0, errors = [], duration_ms = 1200 \<rparr>
   \<and> run_row (runOnce config_discovery quiet_world {}) =
       Some \<lparr> status = Completed, row_products_found = 0, row_products_saved = 0,
              row_companies_saved = 0, error_message = None \<rparr>"
proof -
  have w: "verifyConnection quiet_world" "ensureSchema quiet_world" "createRun quiet_world"
    "updateRun quiet_world" "elapsed quiet_world = 1200"
    by (simp_all add: quiet_world_def)
  have none: "findDataSources config_discovery (allSources quiet_world) = []"
    using weak_source_dropped by (simp add: quiet_world_def)
  from runOnce_no_sources [OF w(1) w(2) w(3) w(4) none, of "{}"] w none
  show ?thesis by simp
qed

section \<open>Scores\<close>

lemma score_bounds:
  "0.4 \<le> score (scoreSource (scoringWeights config_discovery) source)
   \<and> score (scoreSource (scoringWeights config_discovery) source) \<le> 1"
  by (cases "type source") (simp_all add: scoreSource_def config_discovery_def Let_def)

text \<open>
  Claim C5. With the weights of the configuration (structure 0.3, license 0.2, dataset
  size 0.3, freshness 0.2), the score that \<open>scoreSources\<close> gives a source is at least 0 and
  at most 1, the bonus of 0.1 for an official source and the bonus of 0.15 for a
  government source included.
\<close>

theorem score_in_unit_interval:
  "0 \<le> score (scoreSource (scoringWeights config_discovery) source)
   \<and> score (scoreSource (scoringWeights config_discovery) source) \<le> 1
   \<and> (\<forall>s \<in> set (scoreSources config_discovery sources). 0 \<le> score s \<and> score s \<le> 1)"
proof -
  have one: "0 \<le> score (scoreSource (scoringWeights config_discovery) s)
      \<and> score (scoreSource (scoringWeights config_discovery) s) \<le> 1" for s
    using score_bounds [of s] by simp
  then show ?thesis by (auto simp add: scoreSources_def)
qed

text \<open>The source with both bonuses, an open license and a structured format has the
  score 1.\<close>

theorem score_in_unit_interval_witness:
  "score (scoreSource (scoringWeights config_discovery) best_source) = 1
   \<and> 0 \<le> score (scoreSource (scoringWeights config_discovery) best_source)
   \<and> score (scoreSource (scoringWeights config_discovery) best_source) \<le> 1"
proof -
  have "score (scoreSource (scoringWeights config_discovery) best_source) = 1"
    by (simp add: scoreSource_def config_discovery_def best_source_def Let_def
        isOpenLicense_def openLicenses_def case_defs)
  with score_in_unit_interval [of best_source "[]"] show ?thesis by blast
qed

section \<open>The sources that discovery returns\<close>

lemma sorted_desc_sort_by_score:
  "sorted_wrt (\<lambda>a b. score a \<ge> score b) (sort_by_score sources)"
proof -
  have "sorted (map (\<lambda>source. - score source) (sort_by_score sources))"
    by (simp add: sort_by_score_def)
  then show ?thesis
    by (simp add: sorted_map sorted_wrt_iff_nth_less)
qed

lemma mset_sort_by_score: "mset (sort_by_score sources) = mset sources"
  by (simp add: sort_by_score_def)

lemma set_sort_by_score: "set (sort_by_score sources) = set sources"
  by (simp add: sort_by_score_def)

text \<open>
  Claim C6. For every list \<open>found\<close> of discovered sources and every configuration,
  \<open>findDataSources\<close> returns at most 10 sources; every one of them is a scored source of
  \<open>found\<close> whose score, bonuses included, is at least the threshold; the list is in
  descending order of score; and it is the first 10 of the sources at or above the
  threshold after they have been sorted in descending order, so that no source left out
  has a higher score than one returned.
\<close>

theorem findDataSources_top:
  "length (findDataSources cfg found) \<le> 10
   \<and> (\<forall>s \<in> set (findDataSources cfg found).
         score s \<ge> minScoreThreshold cfg
         \<and> (\<exists>source \<in> set found. s = scoreSource (scoringWeights cfg) source))
   \<and> sorted_wrt (\<lambda>a b. score a \<ge> score b) (findDataSources cfg found)
   \<and> findDataSources cfg found = take 10 (sort_by_score (filteredSources cfg found))
   \<and> sorted_wrt (\<lambda>a b. score a \<ge> score b) (sort_by_score (filteredSources cfg found))
   \<and> mset (sort_by_score (filteredSources cfg found)) = mset (filteredSources cfg found)
   \<and> (\<forall>s \<in> set (findDataSources cfg found).
       \<forall>t \<in> set (drop 10 (sort_by_score (filteredSources cfg found))). score t \<le> score s)"
proof -
  let ?ys = "sort_by_score (filteredSources cfg found)"
  have res: "findDataSources cfg found = take 10 ?ys"
    by (simp add: findDataSources_def)
  have sorted: "sorted_wrt (\<lambda>a b. score a \<ge> score b) ?ys"
    by (rule sorted_desc_sort_by_score)
  have "sorted_wrt (\<lambda>a b. score a \<ge> score b) (take 10 ?ys @ drop 10 ?ys)"
    using sorted by simp
  then have top: "\<forall>s \<in> set (take 10 ?ys). \<forall>t \<in> set (drop 10 ?ys). score t \<le> score s"
    and st: "sorted_wrt (\<lambda>a b. score a \<ge> score b) (take 10 ?ys)"
    unfolding sorted_wrt_append by blast+
  have mem: "score s \<ge> minScoreThreshold cfg
      \<and> (\<exists>source \<in> set found. s = scoreSource (scoringWeights cfg) source)"
    if "s \<in> set (take 10 ?ys)" for s
  proof -
    from that have "s \<in> set ?ys" by (rule in_set_takeD)
    then have "s \<in> set (filteredSources cfg found)"
      by (simp add: set_sort_by_score)
    then show ?thesis
      by (auto simp add: filteredSources_def scoreSources_def)
  qed
  show ?thesis
    using res sorted top st mem by (simp add: mset_sort_by_score)
qed

text \<open>Of eighteen sources twelve reach the threshold; the six with the score 1 and four
  of the six with the score 0.6 are returned.\<close>

theorem findDataSources_top_witness:
  "map score (findDataSources config_discovery many_sources)
     = [1, 1, 1, 1, 1, 1, 0.6, 0.6, 0.6, 0.6]
   \<and> length (findDataSources config_discovery many_sources) \<le> 10
   \<and> sorted_wrt (\<lambda>a b. score a \<ge> score b) (findDataSources config_discovery many_sources)"
proof -
  have "map score (findDataSources config_discovery many_sources)
     = [1, 1, 1, 1, 1, 1, 0.6, 0.6, 0.6, 0.6]"
    by (simp add: many_sources_def findDataSources_def filteredSources_def scoreSources_def
        scoreSource_def config_discovery_def weak_source_def fair_source_def best_source_def
        sort_by_score_def Let_def isOpenLicense_def openLicenses_def case_defs numeral_eq_Suc)
  with findDataSources_top [of config_discovery many_sources] show ?thesis by blast
qed

section \<open>Deduplication\<close>

lemma generateHash_enrichProduct:
  "generateHash digest (enrichProduct p) = generateHash digest p"
  by (simp add: generateHash_def hashKey_def enrichProduct_def)

text \<open>The loop of \<open>process\<close> from any state: what it emits is new to the state.\<close>

lemma process_loop:
  "\<exists>new.
     unique (foldl (process_step digest) st products) = unique st @ new
     \<and> distinct (map (generateHash digest) new)
     \<and> set (map (generateHash digest) new) \<inter> seenHashes st = {}
     \<and> seenHashes (foldl (process_step digest) st products)
         = seenHashes st \<union> set (map (generateHash digest) new)
     \<and> duplicates (foldl (process_step digest) st products) + length new
         = duplicates st + length (filter isValidProduct products)"
proof (induction products arbitrary: st)
  case Nil
  show ?case by simp
next
  case (Cons p products)
  let ?st = "process_step digest st p"
  from Cons.IH [of ?st] obtain new where
    u: "unique (foldl (process_step digest) ?st products) = unique ?st @ new"
    and d: "distinct (map (generateHash digest) new)"
    and i: "set (map (generateHash digest) new) \<inter> seenHashes ?st = {}"
    and s: "seenHashes (foldl (process_step digest) ?st products)
            = seenHashes ?st \<union> set (map (generateHash digest) new)"
    and c: "duplicates (foldl (process_step digest) ?st products) + length new
            = duplicates ?st + length (filter isValidProduct products)"
    by blast
  consider (invalid) "\<not> isValidProduct p"
    | (fresh) "isValidProduct p" "generateHash digest (cleanProduct p) \<notin> seenHashes st"
    | (seen) "isValidProduct p" "generateHash digest (cleanProduct p) \<in> seenHashes st"
    by blast
  then show ?case
  proof cases
    case invalid
    then have "unique ?st = unique st" "seenHashes ?st = seenHashes st"
      "duplicates ?st = duplicates st"
      by (simp_all add: process_step_def)
    with u d i s c invalid show ?thesis by auto
  next
    case seen
    then have "unique ?st = unique st" "seenHashes ?st = seenHashes st"
      "duplicates ?st = duplicates st + 1"
      by (simp_all add: process_step_def Let_def)
    with u d i s c seen show ?thesis by auto
  next
    case fresh
    let ?e = "enrichProduct (cleanProduct p)"
    let ?h = "generateHash digest (cleanProduct p)"
    from fresh have st: "unique ?st = unique st @ [?e]"
      "seenHashes ?st = insert ?h (seenHashes st)" "duplicates ?st = duplicates st"
      by (simp_all add: process_step_def Let_def)
    have h: "generateHash digest ?e = ?h"
      by (rule generateHash_enrichProduct)
    have "unique (foldl (process_step digest) st (p # products)) = unique st @ (?e # new)"
      using u st by simp
    moreover have "distinct (map (generateHash digest) (?e # new))"
      using d i st h by auto
    moreover have "set (map (generateHash digest) (?e # new)) \<inter> seenHashes st = {}"
      using i st h fresh by auto
    moreover have "seenHashes (foldl (process_step digest) st (p # products))
        = seenHashes st \<union> set (map (generateHash digest) (?e # new))"
      using s st h by auto
    moreover have "duplicates (foldl (process_step digest) st (p # products)) + length (?e # new)
        = duplicates st + length (filter isValidProduct (p # products))"
      using c st fresh by simp
    ultimately show ?thesis by blast
  qed
qed

lemma process_props:
  "distinct (map (generateHash digest) (unique (process digest seen products)))
   \<and> set (map (generateHash digest) (unique (process digest seen products))) \<inter> seen = {}
   \<and> seenHashes (process digest seen products)
       = seen \<union> set (map (generateHash digest) (unique (process digest seen products)))
   \<and> duplicates (process digest seen products) + length (unique (process digest seen products))
       = length (filter isValidProduct products)"
  using process_loop
    [of digest "\<lparr> unique = [], duplicates = 0, invalid = 0, seenHashes = seen \<rparr>" products]
  by (auto simp add: process_def)

text \<open>
  Claim C1. Over the calls of \<open>process\<close> on one processor, from any \<open>seenHashes\<close> \<open>seen\<close>
  (empty for a new processor) and for any digest, no two of all the records emitted have
  the same content hash, none has a hash of \<open>seen\<close>, and in every call the number of
  duplicates plus the number of records emitted is the number of the products of the
  call that pass \<open>isValidProduct\<close>.
\<close>

theorem process_no_shared_hash:
  "distinct (map (generateHash digest) (concat (map unique (process_calls digest seen calls))))
   \<and> set (map (generateHash digest) (concat (map unique (process_calls digest seen calls))))
       \<inter> seen = {}
   \<and> list_all2 (\<lambda>st products.
         duplicates st + length (unique st) = length (filter isValidProduct products))
       (process_calls digest seen calls) calls"
proof (induction calls arbitrary: seen)
  case Nil
  show ?case by simp
next
  case (Cons products calls)
  define st where "st = process digest seen products"
  define A where "A = set (map (generateHash digest) (unique st))"
  define later where "later = concat (map unique (process_calls digest (seenHashes st) calls))"
  define B where "B = set (map (generateHash digest) later)"
  have calls_eq: "process_calls digest seen (products # calls)
      = st # process_calls digest (seenHashes st) calls"
    by (simp add: st_def Let_def)
  have p: "distinct (map (generateHash digest) (unique st))" "A \<inter> seen = {}"
    "seenHashes st = seen \<union> A"
    "duplicates st + length (unique st) = length (filter isValidProduct products)"
    using process_props [of digest seen products] by (simp_all add: st_def A_def)
  have ih: "distinct (map (generateHash digest) later)" "B \<inter> seenHashes st = {}"
    "list_all2 (\<lambda>st products.
         duplicates st + length (unique st) = length (filter isValidProduct products))
       (process_calls digest (seenHashes st) calls) calls"
    using Cons.IH [of "seenHashes st"] by (simp_all add: later_def B_def)
  have AB: "A \<inter> B = {}" and BS: "B \<inter> seen = {}"
    using ih(2) p(3) by blast+
  have "distinct (map (generateHash digest) (unique st @ later))"
    using p(1) ih(1) AB by (simp add: A_def B_def)
  moreover have "set (map (generateHash digest) (unique st @ later)) \<inter> seen = {}"
    using p(2) BS by (simp add: A_def B_def Int_Un_distrib2)
  ultimately show ?case
    unfolding calls_eq using p(4) ih(3) by (simp add: later_def)
qed

lemmas cleaning_defs = cleanText_def normalizeText_def capitalize_def

lemma two_calls_valid:
  "isValidProduct (rope_raw u)"
  "isValidProduct rope_shouted"
  "\<not> isValidProduct not_hemp"
  by (simp_all add: rope_raw_def rope_shouted_def not_hemp_def validator_defs char_class_defs
      case_defs)

lemma two_calls_keys:
  "hashKey (cleanProduct (rope_raw u)) = js ''hemprope|fiber|textiles''"
  "hashKey (cleanProduct rope_shouted) = js ''hemprope|fiber|textiles''"
  "hashKey (cleanProduct decorated_short) = js ''ab|fiber|textiles''"
  "hashKey (cleanProduct decorated_bare) = js ''cbd|flower|cosmetics''"
  by (simp_all add: rope_raw_def rope_shouted_def decorated_short_def decorated_bare_def hashKey_def
      cleanProduct_def cleaning_defs trim_def char_class_defs case_defs)

lemma rope_cleaned_name: "product_name (cleanProduct (rope_raw u)) = js ''Hemp Rope''"
  by (simp add: rope_raw_def cleanProduct_def cleaning_defs trim_def char_class_defs)

text \<open>With the key itself as its digest: the first call emits two records, counts the
  second product as a duplicate and drops the last; the second call counts the first
  product as a duplicate, its hash being of the first call.\<close>

theorem process_no_shared_hash_witness:
  "map (\<lambda>st. (map product_name (unique st), duplicates st, invalid st))
       (process_calls (\<lambda>key. key) {} two_calls)
     = [([js ''Hemp Rope'', js ''AB''], 1, 1), ([js ''CBD''], 1, 0)]
   \<and> distinct (map (generateHash (\<lambda>key. key))
         (concat (map unique (process_calls (\<lambda>key. key) {} two_calls))))
   \<and> list_all2 (\<lambda>st products.
         duplicates st + length (unique st) = length (filter isValidProduct products))
       (process_calls (\<lambda>key. key) {} two_calls) two_calls"
proof -
  have "map (\<lambda>st. (map product_name (unique st), duplicates st, invalid st))
            (process_calls (\<lambda>key. key) {} two_calls)
     = [([js ''Hemp Rope'', js ''AB''], 1, 1), ([js ''CBD''], 1, 0)]"
    by (simp add: two_calls_def process_def process_step_def Let_def two_calls_valid
        decorated_short_valid decorated_bare_valid generateHash_def two_calls_keys [simplified]
        enrichProduct_def rope_cleaned_name [simplified] decorated_short_cleaned [simplified]
        decorated_bare_cleaned [simplified])
  with process_no_shared_hash [of "\<lambda>key. key" "{}" two_calls] show ?thesis by blast
qed

section \<open>One JSON item from end to end\<close>

lemma rope_parsed: "scrapeJSON (DataArray [Some rope_item]) u = [rope_raw u]"
  by (simp add: scrapeJSON_def parseItems_def List.map_filter_simps parseJSONItem_def
      rope_item_def rope_raw_def or_text_def or_default_def or_value_def)

lemma rope_texts:
  "cleanText (js ''Hemp Rope'') = js ''Hemp Rope''"
  "cleanText (js ''Sustainable hemp fiber rope, biodegradable'')
     = js ''Sustainable hemp fiber rope, biodegradable''"
  "normalizeText (js ''fiber'') = js ''Fiber''"
  "normalizeText (js ''Textiles'') = js ''Textiles''"
  by code_simp+

lemma rope_benefits: "extractBenefits (js ''Sustainable hemp fiber rope, biodegradable'') = []"
  by code_simp

lemma rope_sustainability:
  "extractSustainability (js ''Sustainable hemp fiber rope, biodegradable'')
   = [js ''Sustainable hemp fiber rope, biodegradable'']"
  by code_simp

lemma rope_words:
  "unique_first []
     (filter (\<lambda>word. length word > 3 \<and> word \<notin> set stopWords)
        (split_runs (\<lambda>c. \<not> is_word c) False []
           (toLowerCase (js ''Hemp Rope Sustainable hemp fiber rope, biodegradable Fiber Textiles''))))
   = [js ''hemp'', js ''rope'', js ''sustainable'', js ''fiber'', js ''biodegradable'', js ''textiles'']"
  by code_simp

lemma rope_enriched:
  "enrichProduct (cleanProduct (rope_raw u)) =
     \<lparr> product_name = js ''Hemp Rope'', plant_part = js ''Fiber'', industry = js ''Textiles'',
       description = js ''Sustainable hemp fiber rope, biodegradable'', source_url = u,
       benefits = Some [], technical_specs = None,
       sustainability_aspects = Some [js ''Sustainable hemp fiber rope, biodegradable''],
       keywords_field =
         Some [js ''hemp'', js ''rope'', js ''sustainable'', js ''fiber'', js ''biodegradable'', js ''textiles''] \<rparr>"
  using rope_words
  by (simp add: enrichProduct_def cleanProduct_def rope_raw_def rope_texts [simplified]
      rope_benefits [simplified] rope_sustainability [simplified] absent_or_empty_def
      extractKeywords_def Let_def)

lemma rope_facts:
  "str_includes (js ''Sustainable hemp fiber rope, biodegradable'') (js ''biodegradable'')"
  "set [js ''hemp'', js ''rope'', js ''sustainable'', js ''fiber'', js ''biodegradable'', js ''textiles'']
     \<inter> set stopWords = {}"
  "js ''the'' \<in> set stopWords"
  by code_simp+

text \<open>
  Claim C8. The JSON array with the one item \<open>rope_item\<close> (name \<open>Hemp Rope\<close>, description
  \<open>Sustainable hemp fiber rope, biodegradable\<close>, plant part \<open>fiber\<close>, industry \<open>Textiles\<close>),
  parsed by \<open>scrapeJSON\<close> for any source \<open>u\<close> and given to \<open>process\<close> on a new processor with
  any digest, yields exactly one record and no duplicate. The sustainability aspects of
  the record are the one sentence of the description, which contains \<open>biodegradable\<close>;
  its keywords are six words, none of them a stop word.
\<close>

theorem json_item_end_to_end:
  "unique (process digest {} (scrapeJSON (DataArray [Some rope_item]) u)) =
     [\<lparr> product_name = js ''Hemp Rope'', plant_part = js ''Fiber'', industry = js ''Textiles'',
        description = js ''Sustainable hemp fiber rope, biodegradable'', source_url = u,
        benefits = Some [], technical_specs = None,
        sustainability_aspects = Some [js ''Sustainable hemp fiber rope, biodegradable''],
        keywords_field =
          Some [js ''hemp'', js ''rope'', js ''sustainable'', js ''fiber'', js ''biodegradable'', js ''textiles''] \<rparr>]
   \<and> duplicates (process digest {} (scrapeJSON (DataArray [Some rope_item]) u)) = 0
   \<and> str_includes (js ''Sustainable hemp fiber rope, biodegradable'') (js ''biodegradable'')
   \<and> set [js ''hemp'', js ''rope'', js ''sustainable'', js ''fiber'', js ''biodegradable'', js ''textiles'']
       \<inter> set stopWords = {}
   \<and> (js ''the'') \<in> set stopWords"
  using rope_facts
  by (simp add: rope_parsed process_single_valid two_calls_valid(1) rope_enriched)

theorem json_item_end_to_end_witness:
  "map sustainability_aspects
     (unique (process (\<lambda>key. key) {}
        (scrapeJSON (DataArray [Some rope_item]) (js ''https://example.org/products.json''))))
     = [Some [js ''Sustainable hemp fiber rope, biodegradable'']]
   \<and> map keywords_field
     (unique (process (\<lambda>key. key) {}
        (scrapeJSON (DataArray [Some rope_item]) (js ''https://example.org/products.json''))))
     = [Some [js ''hemp'', js ''rope'', js ''sustainable'', js ''fiber'', js ''biodegradable'', js ''textiles'']]"
  using json_item_end_to_end [of "\<lambda>key. key" "js ''https://example.org/products.json''"]
  by simp

section \<open>The hash set from run to run\<close>













section \<open>The content hash and the writing of the fields\<close>

lemma lower_char_cases:
  "lower_char c = c \<or> (c \<in> set upper_letters \<and> lower_char c \<in> set lower_letters)"
  unfolding lower_char_def
  by (auto split: option.splits dest!: map_of_SomeD dest: set_zip_leftD set_zip_rightD) 

lemma letters_classes:
  "c \<in> set upper_letters \<or> c \<in> set lower_letters \<Longrightarrow>
   \<not> is_space c \<and> \<not> is_control c \<and> \<not> is_decoration c \<and> c \<noteq> Latin (CHR ''|'')
   \<and> c \<noteq> Latin (CHR '' '')"
  by (auto simp add: upper_letters_def lower_letters_def is_decoration_def char_class_defs)

lemma lower_char_class [simp]:
  "is_space (lower_char c) = is_space c"
  "is_control (lower_char c) = is_control c"
  "is_decoration (lower_char c) = is_decoration c"
  "(lower_char c = Latin (CHR ''|'')) = (c = Latin (CHR ''|''))"
  using lower_char_cases [of c] letters_classes [of c] letters_classes [of "lower_char c"]
  by auto

lemma lower_char_space [simp]: "lower_char (Latin (CHR '' '')) = Latin (CHR '' '')"
  by (simp add: case_defs)


lemma space_lower_comp: "(is_space \<circ> lower_char) = is_space"
  "(is_decoration \<circ> lower_char) = is_decoration"
  "((\<lambda>c. \<not> is_control c) \<circ> lower_char) = (\<lambda>c. \<not> is_control c)"
  by (auto simp add: fun_eq_iff)

lemma collapse_spaces_lower:
  "collapse_spaces b (map lower_char s) = map lower_char (collapse_spaces b s)"
  by (induction s arbitrary: b) simp_all

lemma trim_lower: "trim (map lower_char s) = map lower_char (trim s)"
  by (simp add: trim_def dropWhile_map rev_map space_lower_comp)

lemma clean_rest_lower:
  "trim (dropWhile is_decoration (filter (\<lambda>c. \<not> is_control c)
      (collapse_spaces False (map lower_char t))))
   = map lower_char (trim (dropWhile is_decoration (filter (\<lambda>c. \<not> is_control c)
      (collapse_spaces False t))))"
  by (simp add: collapse_spaces_lower filter_map dropWhile_map trim_lower space_lower_comp)

lemma cleanText_cong:
  assumes "toLowerCase (trim x) = toLowerCase (trim y)"
  shows "toLowerCase (cleanText x) = toLowerCase (cleanText y)"
proof -
  have "toLowerCase (cleanText z)
        = trim (dropWhile is_decoration (filter (\<lambda>c. \<not> is_control c)
            (collapse_spaces False (toLowerCase (trim z)))))" for z
    by (simp add: cleanText_def toLowerCase_def clean_rest_lower)
  then show ?thesis using assms by simp
qed

lemma normalizeText_cong:
  "toLowerCase (trim x) = toLowerCase (trim y) \<Longrightarrow> normalizeText x = normalizeText y"
  using cleanText_cong [of x y] by (simp add: normalizeText_def)

lemma lower_char_bar [simp]: "lower_char (Latin (CHR ''|'')) = Latin (CHR ''|'')"
  by (simp add: case_defs)

lemma hashKey_cleanProduct:
  "hashKey (cleanProduct p)
   = filter (\<lambda>c. \<not> is_space c) (toLowerCase (product_name (cleanProduct p)))
     @ Latin (CHR ''|'') # filter (\<lambda>c. \<not> is_space c) (toLowerCase (plant_part (cleanProduct p)))
     @ Latin (CHR ''|'') # filter (\<lambda>c. \<not> is_space c) (toLowerCase (industry (cleanProduct p)))"
  by (simp add: hashKey_def toLowerCase_def is_space_def [of "Latin (CHR ''|'')"])

lemma bar_split:
  "Latin (CHR ''|'') \<notin> set a \<Longrightarrow> Latin (CHR ''|'') \<notin> set a' \<Longrightarrow>
   a @ Latin (CHR ''|'') # b = a' @ Latin (CHR ''|'') # b' \<Longrightarrow> a = a' \<and> b = b'"
proof (induction a arbitrary: a')
  case Nil
  then show ?case by (cases a') auto
next
  case (Cons c a)
  then show ?case by (cases a') auto
qed

lemma squash_no_bar:
  assumes "Latin (CHR ''|'') \<notin> set s"
  shows "Latin (CHR ''|'') \<notin> set (filter (\<lambda>c. \<not> is_space c) (toLowerCase s))"
proof
  assume "Latin (CHR ''|'') \<in> set (filter (\<lambda>c. \<not> is_space c) (toLowerCase s))"
  then obtain c where c: "c \<in> set s" "Latin (CHR ''|'') = lower_char c"
    by (auto simp add: toLowerCase_def)
  from c(2) have "lower_char c = Latin (CHR ''|'')"
    by simp
  then have "c = Latin (CHR ''|'')"
    by (simp only: lower_char_class)
  with assms c(1) show False by simp
qed

lemma oil_valid:
  "isValidProduct plain_oil" "isValidProduct dashed_oil" "isValidProduct shouted_oil"
  "isValidProduct bar_left" "isValidProduct bar_right"
  by (simp_all add: plain_oil_def dashed_oil_def shouted_oil_def bar_left_def bar_right_def
      validator_defs char_class_defs case_defs)

lemma oil_keys:
  "hashKey (cleanProduct plain_oil) = js ''hempoil|seed|cosmetics''"
  "hashKey (cleanProduct dashed_oil) = js ''hempoil|seed|cosmetics''"
  "hashKey (cleanProduct bar_left) = js ''hemp|seed|oil|cosmetics''"
  "hashKey (cleanProduct bar_right) = js ''hemp|seed|oil|cosmetics''"
  by (simp_all add: plain_oil_def dashed_oil_def bar_left_def bar_right_def hashKey_def
      cleanProduct_def cleaning_defs trim_def char_class_defs case_defs)

text \<open>
  Claim C2 says that the content hash changes when one of the three fields changes by
  more than white space and letter case. The names \<open>-Hemp Oil\<close> and \<open>Hemp Oil\<close> differ by a
  dash, and the valid products \<open>dashed_oil\<close> and \<open>plain_oil\<close>, equal otherwise, have the
  same key, hence the same hash under every digest. So have \<open>bar_left\<close> and \<open>bar_right\<close>,
  whose names and plant parts differ.
\<close>

theorem content_hash_changes_counterexample:
  "toLowerCase (trim (product_name dashed_oil)) \<noteq> toLowerCase (trim (product_name plain_oil))
   \<and> isValidProduct dashed_oil \<and> isValidProduct plain_oil
   \<and> hashKey (cleanProduct dashed_oil) = hashKey (cleanProduct plain_oil)
   \<and> generateHash (\<lambda>key. key) (cleanProduct dashed_oil)
       = generateHash (\<lambda>key. key) (cleanProduct plain_oil)
   \<and> toLowerCase (trim (product_name bar_left)) \<noteq> toLowerCase (trim (product_name bar_right))
   \<and> toLowerCase (trim (plant_part bar_left)) \<noteq> toLowerCase (trim (plant_part bar_right))
   \<and> isValidProduct bar_left \<and> isValidProduct bar_right
   \<and> hashKey (cleanProduct bar_left) = hashKey (cleanProduct bar_right)"
proof -
  have "toLowerCase (trim (product_name dashed_oil)) \<noteq> toLowerCase (trim (product_name plain_oil))"
    and "toLowerCase (trim (product_name bar_left)) \<noteq> toLowerCase (trim (product_name bar_right))"
    and "toLowerCase (trim (plant_part bar_left)) \<noteq> toLowerCase (trim (plant_part bar_right))"
    by (simp_all add: plain_oil_def dashed_oil_def bar_left_def bar_right_def trim_def
        char_class_defs case_defs)
  then show ?thesis
    using oil_valid by (simp add: oil_keys generateHash_def)
qed

text \<open>
  Claim C2, amended. The content hash of a product is the digest of the key of the
  cleaned product. It is the same for two products whose names, plant parts and
  industries are equal after trimming and lower-casing, whatever their other fields
  are; in particular it is the same when the three fields are equal. When no cleaned
  name or plant part contains a bar, two products have the same key exactly when their
  cleaned names, plant parts and industries are equal after lower-casing and removal of
  all white space: a change of one of these changes what is hashed. Nothing is said of
  what cleaning removes (a leading dash, control characters, inner white space) nor of
  fields with a bar.
\<close>

theorem content_hash_invariance:
  "generateHash digest (cleanProduct p) = digest (hashKey (cleanProduct p))
   \<and> (toLowerCase (trim (product_name p)) = toLowerCase (trim (product_name q))
        \<and> toLowerCase (trim (plant_part p)) = toLowerCase (trim (plant_part q))
        \<and> toLowerCase (trim (industry p)) = toLowerCase (trim (industry q))
      \<longrightarrow> generateHash digest (cleanProduct p) = generateHash digest (cleanProduct q))
   \<and> (product_name p = product_name q \<and> plant_part p = plant_part q \<and> industry p = industry q
      \<longrightarrow> generateHash digest (cleanProduct p) = generateHash digest (cleanProduct q))
   \<and> (Latin (CHR ''|'') \<notin> set (product_name (cleanProduct p)) \<union> set (plant_part (cleanProduct p))
          \<union> set (product_name (cleanProduct q)) \<union> set (plant_part (cleanProduct q))
      \<longrightarrow> (hashKey (cleanProduct p) = hashKey (cleanProduct q)
           \<longleftrightarrow> filter (\<lambda>c. \<not> is_space c) (toLowerCase (product_name (cleanProduct p)))
                 = filter (\<lambda>c. \<not> is_space c) (toLowerCase (product_name (cleanProduct q)))
               \<and> filter (\<lambda>c. \<not> is_space c) (toLowerCase (plant_part (cleanProduct p)))
                 = filter (\<lambda>c. \<not> is_space c) (toLowerCase (plant_part (cleanProduct q)))
               \<and> filter (\<lambda>c. \<not> is_space c) (toLowerCase (industry (cleanProduct p)))
                 = filter (\<lambda>c. \<not> is_space c) (toLowerCase (industry (cleanProduct q)))))"
proof (intro conjI impI)
  show "generateHash digest (cleanProduct p) = digest (hashKey (cleanProduct p))"
    by (simp add: generateHash_def)
next
  assume h: "toLowerCase (trim (product_name p)) = toLowerCase (trim (product_name q))
        \<and> toLowerCase (trim (plant_part p)) = toLowerCase (trim (plant_part q))
        \<and> toLowerCase (trim (industry p)) = toLowerCase (trim (industry q))"
  with cleanText_cong [of "product_name p" "product_name q"]
    normalizeText_cong [of "plant_part p" "plant_part q"]
    normalizeText_cong [of "industry p" "industry q"]
  have "toLowerCase (product_name (cleanProduct p)) = toLowerCase (product_name (cleanProduct q))"
    and "plant_part (cleanProduct p) = plant_part (cleanProduct q)"
    and "industry (cleanProduct p) = industry (cleanProduct q)"
    by (simp_all add: cleanProduct_def)
  then have "hashKey (cleanProduct p) = hashKey (cleanProduct q)"
    by (simp only: hashKey_cleanProduct)
  then show "generateHash digest (cleanProduct p) = generateHash digest (cleanProduct q)"
    by (simp add: generateHash_def)
next
  assume "product_name p = product_name q \<and> plant_part p = plant_part q \<and> industry p = industry q"
  then show "generateHash digest (cleanProduct p) = generateHash digest (cleanProduct q)"
    by (simp add: generateHash_def hashKey_def cleanProduct_def)
next
  let ?sq = "\<lambda>s. filter (\<lambda>c. \<not> is_space c) (toLowerCase s)"
  assume "Latin (CHR ''|'') \<notin> set (product_name (cleanProduct p)) \<union> set (plant_part (cleanProduct p))
          \<union> set (product_name (cleanProduct q)) \<union> set (plant_part (cleanProduct q))"
  then have nb: "Latin (CHR ''|'') \<notin> set (?sq (product_name (cleanProduct p)))"
    "Latin (CHR ''|'') \<notin> set (?sq (plant_part (cleanProduct p)))"
    "Latin (CHR ''|'') \<notin> set (?sq (product_name (cleanProduct q)))"
    "Latin (CHR ''|'') \<notin> set (?sq (plant_part (cleanProduct q)))"
    using squash_no_bar by blast+
  show "hashKey (cleanProduct p) = hashKey (cleanProduct q)
           \<longleftrightarrow> ?sq (product_name (cleanProduct p)) = ?sq (product_name (cleanProduct q))
               \<and> ?sq (plant_part (cleanProduct p)) = ?sq (plant_part (cleanProduct q))
               \<and> ?sq (industry (cleanProduct p)) = ?sq (industry (cleanProduct q))"
  proof
    assume "hashKey (cleanProduct p) = hashKey (cleanProduct q)"
    then have e: "?sq (product_name (cleanProduct p))
          @ Latin (CHR ''|'') # (?sq (plant_part (cleanProduct p)) @ Latin (CHR ''|'') # ?sq (industry (cleanProduct p)))
        = ?sq (product_name (cleanProduct q))
          @ Latin (CHR ''|'') # (?sq (plant_part (cleanProduct q)) @ Latin (CHR ''|'') # ?sq (industry (cleanProduct q)))"
      by (simp only: hashKey_cleanProduct)
    from bar_split [OF nb(1) nb(3) e]
    have 1: "?sq (product_name (cleanProduct p)) = ?sq (product_name (cleanProduct q))"
      and r: "?sq (plant_part (cleanProduct p)) @ Latin (CHR ''|'') # ?sq (industry (cleanProduct p))
         = ?sq (plant_part (cleanProduct q)) @ Latin (CHR ''|'') # ?sq (industry (cleanProduct q))"
      by blast+
    from bar_split [OF nb(2) nb(4) r] 1 show "?sq (product_name (cleanProduct p)) = ?sq (product_name (cleanProduct q))
               \<and> ?sq (plant_part (cleanProduct p)) = ?sq (plant_part (cleanProduct q))
               \<and> ?sq (industry (cleanProduct p)) = ?sq (industry (cleanProduct q))"
      by blast
  next
    assume "?sq (product_name (cleanProduct p)) = ?sq (product_name (cleanProduct q))
               \<and> ?sq (plant_part (cleanProduct p)) = ?sq (plant_part (cleanProduct q))
               \<and> ?sq (industry (cleanProduct p)) = ?sq (industry (cleanProduct q))"
    then show "hashKey (cleanProduct p) = hashKey (cleanProduct q)"
      by (simp only: hashKey_cleanProduct)
  qed
qed


text \<open>\<open>cafe_shouted\<close> and \<open>cafe_plain\<close> differ in case, also in their last letter;
  \<open>shouted_oil\<close> is \<open>plain_oil\<close> in other case and spacing, with another description,
  source and benefits; \<open>decorated_short\<close> is another product.\<close>

theorem content_hash_invariance_witness:
  "generateHash (\<lambda>key. key) (cleanProduct cafe_shouted)
       = generateHash (\<lambda>key. key) (cleanProduct cafe_plain)
   \<and> toLowerCase (trim (product_name shouted_oil)) = toLowerCase (trim (product_name plain_oil))
   \<and> toLowerCase (trim (plant_part shouted_oil)) = toLowerCase (trim (plant_part plain_oil))
   \<and> toLowerCase (trim (industry shouted_oil)) = toLowerCase (trim (industry plain_oil))
   \<and> generateHash (\<lambda>key. key) (cleanProduct shouted_oil)
       = generateHash (\<lambda>key. key) (cleanProduct plain_oil)
   \<and> Latin (CHR ''|'') \<notin> set (product_name (cleanProduct plain_oil))
        \<union> set (plant_part (cleanProduct plain_oil))
        \<union> set (product_name (cleanProduct decorated_short))
        \<union> set (plant_part (cleanProduct decorated_short))
   \<and> hashKey (cleanProduct plain_oil) \<noteq> hashKey (cleanProduct decorated_short)"
proof -
  have same: "toLowerCase (trim (product_name shouted_oil)) = toLowerCase (trim (product_name plain_oil))
      \<and> toLowerCase (trim (plant_part shouted_oil)) = toLowerCase (trim (plant_part plain_oil))
      \<and> toLowerCase (trim (industry shouted_oil)) = toLowerCase (trim (industry plain_oil))"
    by (simp add: plain_oil_def shouted_oil_def trim_def char_class_defs case_defs)
  have cleaned: "product_name (cleanProduct plain_oil) = js ''Hemp Oil''"
    "plant_part (cleanProduct plain_oil) = js ''Seed''"
    "product_name (cleanProduct decorated_short) = js ''AB''"
    "plant_part (cleanProduct decorated_short) = js ''Fiber''"
    by (simp_all add: plain_oil_def decorated_short_def cleanProduct_def cleaning_defs trim_def
        char_class_defs case_defs)
  have no_bar: "Latin (CHR ''|'') \<notin> set (product_name (cleanProduct plain_oil))
        \<union> set (plant_part (cleanProduct plain_oil))
        \<union> set (product_name (cleanProduct decorated_short))
        \<union> set (plant_part (cleanProduct decorated_short))"
    by (simp add: cleaned)
  have other: "filter (\<lambda>c. \<not> is_space c) (toLowerCase (product_name (cleanProduct plain_oil)))
      \<noteq> filter (\<lambda>c. \<not> is_space c) (toLowerCase (product_name (cleanProduct decorated_short)))"
    by (simp add: cleaned char_class_defs case_defs)
  have cafe: "toLowerCase (trim (product_name cafe_shouted)) = toLowerCase (trim (product_name cafe_plain))
      \<and> toLowerCase (trim (plant_part cafe_shouted)) = toLowerCase (trim (plant_part cafe_plain))
      \<and> toLowerCase (trim (industry cafe_shouted)) = toLowerCase (trim (industry cafe_plain))"
    by (simp add: plain_oil_def cafe_shouted_def cafe_plain_def trim_def char_class_defs case_defs)
  from content_hash_invariance [of "\<lambda>key. key" cafe_shouted cafe_plain] cafe
  have "generateHash (\<lambda>key. key) (cleanProduct cafe_shouted)
       = generateHash (\<lambda>key. key) (cleanProduct cafe_plain)"
    by blast
  moreover from content_hash_invariance [of "\<lambda>key. key" shouted_oil plain_oil] same
  have "generateHash (\<lambda>key. key) (cleanProduct shouted_oil)
       = generateHash (\<lambda>key. key) (cleanProduct plain_oil)"
    by blast
  moreover from content_hash_invariance [of "\<lambda>key. key" plain_oil decorated_short] no_bar other
  have "hashKey (cleanProduct plain_oil) \<noteq> hashKey (cleanProduct decorated_short)"
    by blast
  ultimately show ?thesis using same no_bar by blast
qed

end
